theory Spec2Isabelle
  imports Complex_Main
begin

section \<open>Values, errors and shapes\<close>

text \<open>
  The primitives of \<^verbatim>\<open>p5/core/primitives.py\<close> take \<^verbatim>\<open>*args\<close>: every argument is either a
  number or a (possibly nested) tuple of arguments, and the arity dispatch slices the
  argument tuple into new tuples. Python's \<^verbatim>\<open>int\<close> and \<^verbatim>\<open>float\<close> are both read as
  \<^typ>\<open>real\<close>: the model is the exact-arithmetic reading of the program, rounding, NaN and
  infinities are not represented.
\<close>

datatype pyval = Num real | Tup "pyval list"

datatype error = ValueError string | TypeError | IndexError | ZeroDivisionError

text \<open>The members of \<^verbatim>\<open>constants.SType\<close> that this module uses.\<close>

datatype SType = TESS | TRIANGLE_FAN | LINES | LINE_STRIP | TRIANGLES | QUADS

text \<open>
  The stroke cap constants of \<^verbatim>\<open>constants\<close>: three distinct values; the renderer's
  attribute can hold any other value as well.
\<close>

datatype StrokeCap = SQUARE | PROJECT | ROUND | OtherCap nat

text \<open>
  A \<^verbatim>\<open>PShape\<close> as this module builds it: vertices, topology tag and children (none for
  the primitives made here). \<open>Geometry\<close> stands for an instance of \<^verbatim>\<open>geometry.Geometry\<close>,
  whose children \<^verbatim>\<open>draw_shape\<close> does not visit.
\<close>

datatype shape =
    PShape (vertices: "pyval list") (shape_type: SType) (children: "shape list")
  | Geometry

text \<open>
  What the module reads and never writes: the renderer's transform matrix (rows of a
  4 x 4 matrix) and stroke attributes, and the collaborators of \<^verbatim>\<open>pmath\<close> (the sine/cosine
  table \<^verbatim>\<open>SINCOS\<close> of \<open>(sin, cos)\<close> pairs, the curve resolutions and the two point
  evaluators). None of them is defined in this module, so they are parameters.
\<close>

record env =
  transform_matrix :: "real list list"
  stroke_cap :: StrokeCap
  stroke_weight :: real
  SINCOS :: "(real \<times> real) list"
  bezier_resolution :: int
  curve_resolution :: int
  bezier_point :: "pyval \<Rightarrow> pyval \<Rightarrow> pyval \<Rightarrow> pyval \<Rightarrow> real \<Rightarrow> error + pyval"
  curve_point :: "pyval \<Rightarrow> pyval \<Rightarrow> pyval \<Rightarrow> pyval \<Rightarrow> real \<Rightarrow> error + pyval"

text \<open>
  What the module writes: the globals \<^verbatim>\<open>_rect_mode\<close> and \<^verbatim>\<open>_ellipse_mode\<close> (any value
  can be stored; \<open>None\<close> is Python's \<^verbatim>\<open>None\<close>), and the shapes handed to
  \<^verbatim>\<open>p5.renderer.render\<close>, in call order.
\<close>

record state =
  rect_mode_var :: "string option"
  ellipse_mode_var :: "string option"
  rendered :: "shape list"

definition initial_state :: state where
  "initial_state = \<lparr>rect_mode_var = Some ''CORNER'', ellipse_mode_var = Some ''CENTER'',
     rendered = []\<rparr>"

definition MIN_POINT_ACCURACY :: int where "MIN_POINT_ACCURACY = 20"
definition MAX_POINT_ACCURACY :: int where "MAX_POINT_ACCURACY = 200"
definition POINT_ACCURACY_FACTOR :: real where "POINT_ACCURACY_FACTOR = 10"

section \<open>Python operations\<close>

definition ebind :: "error + 'a \<Rightarrow> ('a \<Rightarrow> error + 'b) \<Rightarrow> error + 'b" where
  "ebind m f = (case m of Inl e \<Rightarrow> Inl e | Inr v \<Rightarrow> f v)"

text \<open>\<^verbatim>\<open>int(x)\<close> on a float truncates toward zero.\<close>

definition py_int :: "real \<Rightarrow> int" where
  "py_int x = (if 0 \<le> x then \<lfloor>x\<rfloor> else \<lceil>x\<rceil>)"

text \<open>\<^verbatim>\<open>a + b\<close>: numbers add, tuples concatenate, a number and a tuple raise.\<close>

fun py_add :: "pyval \<Rightarrow> pyval \<Rightarrow> error + pyval" where
  "py_add (Num a) (Num b) = Inr (Num (a + b))"
| "py_add (Tup a) (Tup b) = Inr (Tup (a @ b))"
| "py_add _ _ = Inl TypeError"

text \<open>\<^verbatim>\<open>a - b\<close>: numbers only.\<close>

fun py_sub :: "pyval \<Rightarrow> pyval \<Rightarrow> error + pyval" where
  "py_sub (Num a) (Num b) = Inr (Num (a - b))"
| "py_sub _ _ = Inl TypeError"

text \<open>\<^verbatim>\<open>a / 2\<close>: true division, numbers only.\<close>

fun py_half :: "pyval \<Rightarrow> error + pyval" where
  "py_half (Num a) = Inr (Num (a / 2))"
| "py_half (Tup _) = Inl TypeError"

text \<open>\<^verbatim>\<open>2 * a\<close>: a number is doubled, a tuple is repeated.\<close>

fun py_double :: "pyval \<Rightarrow> error + pyval" where
  "py_double (Num a) = Inr (Num (2 * a))"
| "py_double (Tup xs) = Inr (Tup (xs @ xs))"

text \<open>A value used where a number is required (an entry of a numeric array, an angle).\<close>

fun as_num :: "pyval \<Rightarrow> error + real" where
  "as_num (Num a) = Inr a"
| "as_num (Tup _) = Inl TypeError"

text \<open>\<^verbatim>\<open>v[i]\<close> for a constant index \<open>i \<ge> 0\<close>.\<close>

fun py_index :: "pyval \<Rightarrow> nat \<Rightarrow> error + pyval" where
  "py_index (Tup xs) i = (if i < length xs then Inr (xs ! i) else Inl IndexError)"
| "py_index (Num _) i = Inl TypeError"

text \<open>
  \<^verbatim>\<open>tbl[idx % len(tbl)]\<close>: the remainder by zero raises; a sequence index may be negative
  (counting from the end) and raises outside \<open>-len .. len - 1\<close>.
\<close>

definition table_get :: "'a list \<Rightarrow> int \<Rightarrow> error + 'a" where
  "table_get tbl idx =
     (let n = int (length tbl) in
      if n = 0 then Inl ZeroDivisionError
      else let i = idx mod n; j = (if i < 0 then n + i else i) in
        if 0 \<le> j \<and> j < n then Inr (tbl ! nat j) else Inl IndexError)"

text \<open>The tuple unpackings \<^verbatim>\<open>a, b = args\<close> and \<^verbatim>\<open>a, = args\<close>.\<close>

definition unpack2 :: "pyval list \<Rightarrow> error + (pyval \<times> pyval)" where
  "unpack2 args =
     (case args of
        [a, b] \<Rightarrow> Inr (a, b)
      | _ \<Rightarrow> Inl (ValueError (if length args < 2 then ''not enough values to unpack''
                               else ''too many values to unpack'')))"

definition unpack1 :: "pyval list \<Rightarrow> error + pyval" where
  "unpack1 args =
     (case args of
        [a] \<Rightarrow> Inr a
      | _ \<Rightarrow> Inl (ValueError (if length args < 1 then ''not enough values to unpack''
                               else ''too many values to unpack'')))"

text \<open>
  Modelled from the spec: \<^verbatim>\<open>pmath.Point\<close> is not defined in this module. The spec's data
  model has it as a 3-component coordinate \<open>(x, y, z)\<close> whose \<open>z\<close> defaults to 0 for 2D
  calls; the module builds it from two or three positional arguments, reads its fields
  \<open>x\<close>, \<open>y\<close>, \<open>z\<close>, indexes it and unpacks it again, so it is a tuple of three components.
  Any other number of arguments is a \<open>TypeError\<close>.
\<close>

type_synonym point3 = "pyval \<times> pyval \<times> pyval"

fun Point :: "pyval list \<Rightarrow> error + point3" where
  "Point [x, y] = Inr (x, y, Num 0)"
| "Point [x, y, z] = Inr (x, y, z)"
| "Point _ = Inl TypeError"

text \<open>\<^verbatim>\<open>Point(*p)\<close>: the argument must be a sequence.\<close>

fun Point_of :: "pyval \<Rightarrow> error + point3" where
  "Point_of (Tup xs) = Point xs"
| "Point_of (Num _) = Inl TypeError"

text \<open>A \<open>Point\<close> used as a value (passed on, indexed or unpacked): the tuple of its fields.\<close>

fun as_tuple :: "point3 \<Rightarrow> pyval" where
  "as_tuple (x, y, z) = Tup [x, y, z]"

section \<open>Drawing\<close>

text \<open>
  \<^verbatim>\<open>draw_shape\<close> (lines 792-808): the shape is rendered, then each child in order; a
  \<open>Geometry\<close> is rendered and its children are not visited.
\<close>

fun draw_shape :: "shape \<Rightarrow> state \<Rightarrow> state" where
  "draw_shape Geometry st = st\<lparr>rendered := rendered st @ [Geometry]\<rparr>"
| "draw_shape (PShape vs t cs) st =
     fold draw_shape cs (st\<lparr>rendered := rendered st @ [PShape vs t cs]\<rparr>)"

text \<open>
  \<^verbatim>\<open>_draw_on_return\<close> (lines 64-74): the wrapped function runs first; only when it returns
  a shape is the shape drawn. An exception of the wrapped function leaves before
  \<^verbatim>\<open>draw_shape\<close>.
\<close>

definition draw_on_return :: "(state \<Rightarrow> error + shape) \<Rightarrow> state \<Rightarrow> (error + shape) \<times> state" where
  "draw_on_return func st =
     (case func st of
        Inl e \<Rightarrow> (Inl e, st)
      | Inr s \<Rightarrow> (Inr s, draw_shape s st))"

section \<open>Arcs\<close>

text \<open>\<^verbatim>\<open>m.dot(v)\<close> for a matrix given by its rows.\<close>

definition dot :: "real list list \<Rightarrow> real list \<Rightarrow> real list" where
  "dot m v = map (\<lambda>row. sum_list (map2 (*) row v)) m"

text \<open>
  Lines 101-108 of \<^verbatim>\<open>Arc._tessellate\<close>: the centre and the point offset by the radii are
  sent through the transform; \<open>size_acc\<close> is their distance times \<open>2 pi / F\<close>.
\<close>

definition size_acc :: "env \<Rightarrow> real \<Rightarrow> real \<Rightarrow> real \<Rightarrow> real \<Rightarrow> real" where
  "size_acc env c1x c1y c2x c2y =
     (let s1 = dot (transform_matrix env) [c1x, c1y, 0, 1];
          s2 = dot (transform_matrix env) [c2x, c2y, 0, 1];
          sdiff = map2 (-) s2 s1
      in (sqrt (sum_list (map2 (*) sdiff sdiff)) * pi * 2) / POINT_ACCURACY_FACTOR)"

text \<open>Line 110: the subdivision count.\<close>

definition acc :: "env \<Rightarrow> real \<Rightarrow> real \<Rightarrow> real \<Rightarrow> real \<Rightarrow> int" where
  "acc env c1x c1y c2x c2y =
     min MAX_POINT_ACCURACY (max MIN_POINT_ACCURACY (py_int (size_acc env c1x c1y c2x c2y)))"

text \<open>Lines 120-124 and 125-129: the vertex for one table entry \<open>(sin, cos)\<close>.\<close>

fun arc_vertex :: "real \<Rightarrow> real \<Rightarrow> real \<Rightarrow> real \<Rightarrow> real \<times> real \<Rightarrow> pyval" where
  "arc_vertex c1x c1y rx ry (s, c) = Tup [Num (c1x + rx * c), Num (c1y + ry * s), Num 0]"

text \<open>
  Lines 118-124, \<^verbatim>\<open>for idx in range(start_index, end_index, inc)\<close> with \<open>inc > 0\<close>: \<open>idx\<close>
  is the loop variable, \<open>verts\<close> the list \<^verbatim>\<open>vertices\<close> built so far.
\<close>

function arc_loop ::
  "(real \<times> real) list \<Rightarrow> real \<Rightarrow> real \<Rightarrow> real \<Rightarrow> real \<Rightarrow> int \<Rightarrow> int \<Rightarrow> int \<Rightarrow> pyval list
     \<Rightarrow> error + pyval list" where
  "arc_loop tbl c1x c1y rx ry idx end_index inc verts =
     (if 0 < inc \<and> idx < end_index then
        (case table_get tbl idx of
           Inl e \<Rightarrow> Inl e
         | Inr sc \<Rightarrow>
             arc_loop tbl c1x c1y rx ry (idx + inc) end_index inc
               (verts @ [arc_vertex c1x c1y rx ry sc]))
      else Inr verts)"
  by pat_completeness auto
termination
  by (relation "measure (\<lambda>(tbl, c1x, c1y, rx, ry, idx, end_index, inc, verts).
        nat (end_index - idx))") auto

declare arc_loop.simps [simp del]

text \<open>
  \<^verbatim>\<open>Arc._tessellate\<close> (lines 93-132). The entries of the two numeric arrays must be
  numbers; \<^verbatim>\<open>range\<close> raises a \<open>ValueError\<close> for a zero step, which is what \<open>inc\<close> is when
  the table has fewer entries than \<open>acc\<close>.
\<close>

definition Arc_tessellate ::
  "env \<Rightarrow> pyval \<Rightarrow> pyval \<Rightarrow> pyval \<Rightarrow> pyval \<Rightarrow> string option \<Rightarrow> error + pyval list" where
  "Arc_tessellate env center radii start_angle stop_angle arc_mode =
     ebind (py_index radii 0) (\<lambda>rx.
     ebind (py_index radii 1) (\<lambda>ry.
     ebind (py_index center 0) (\<lambda>c1x.
     ebind (py_index center 1) (\<lambda>c1y.
     ebind (as_num c1x) (\<lambda>c1x.
     ebind (as_num c1y) (\<lambda>c1y.
     ebind (ebind (py_add (Num c1x) rx) as_num) (\<lambda>c2x.
     ebind (ebind (py_add (Num c1y) ry) as_num) (\<lambda>c2y.
     let acc = acc env c1x c1y c2x c2y;
         inc = py_int (real (length (SINCOS env)) / real_of_int acc);
         sclen = int (length (SINCOS env))
     in
     ebind (as_num start_angle) (\<lambda>a0.
     ebind (as_num stop_angle) (\<lambda>a1.
     let start_index = py_int ((a0 / (pi * 2)) * real_of_int sclen);
         end_index = py_int ((a1 / (pi * 2)) * real_of_int sclen);
         verts = (if arc_mode = Some ''PIE'' \<or> arc_mode = None
                     then [Tup [Num c1x, Num c1y, Num 0]] else [])
     in
     if inc = 0 then Inl (ValueError ''range() arg 3 must not be zero'')
     else
     ebind (as_num rx) (\<lambda>rx.
     ebind (as_num ry) (\<lambda>ry.
     ebind (arc_loop (SINCOS env) c1x c1y rx ry start_index end_index inc verts) (\<lambda>verts.
     ebind (table_get (SINCOS env) end_index) (\<lambda>sc.
     let verts = verts @ [arc_vertex c1x c1y rx ry sc] in
     Inr (if arc_mode = Some ''CHORD'' \<or> arc_mode = Some ''PIE''
          then verts @ [hd verts] else verts)))))))))))))))"

text \<open>\<^verbatim>\<open>Arc.__init__\<close> (lines 77-91): the topology tag, then the tessellation.\<close>

definition Arc ::
  "env \<Rightarrow> pyval \<Rightarrow> pyval \<Rightarrow> pyval \<Rightarrow> pyval \<Rightarrow> string option \<Rightarrow> error + shape" where
  "Arc env center radii start_angle stop_angle mode =
     (let gl_type = (if mode = Some ''OPEN'' \<or> mode = Some ''CHORD'' then TESS else TRIANGLE_FAN)
      in ebind (Arc_tessellate env center radii start_angle stop_angle mode)
           (\<lambda>vs. Inr (PShape vs gl_type [])))"

text \<open>
  \<^verbatim>\<open>arc\<close> (lines 644-669) before it is wrapped: \<open>mode\<close> is the closure mode,
  \<open>ellipse_mode\<close> the keyword argument that overrides the global \<^verbatim>\<open>_ellipse_mode\<close>.
\<close>

definition arc_body ::
  "env \<Rightarrow> pyval list \<Rightarrow> string option \<Rightarrow> string option \<Rightarrow> state \<Rightarrow> error + shape" where
  "arc_body env args mode ellipse_mode st =
     (if length args \<noteq> 5 \<and> length args \<noteq> 6
      then Inl (ValueError ''Unexpected number of arguments passed to arc()'')
      else
        let coordinate = (if length args = 5 then args ! 0 else Tup (take 2 args));
            rest = (if length args = 5 then drop 1 args else drop 2 args);
            width = rest ! 0; height = rest ! 1;
            start_angle = rest ! 2; stop_angle = rest ! 3;
            emode = (case ellipse_mode of None \<Rightarrow> ellipse_mode_var st | Some m \<Rightarrow> Some m)
        in
        if emode = Some ''CORNER'' then
          ebind (Point_of coordinate) (\<lambda>(cx, cy, cz).
          ebind (py_half width) (\<lambda>dx.
          ebind (py_half height) (\<lambda>dy.
          ebind (py_add cx dx) (\<lambda>x.
          ebind (py_add cy dy) (\<lambda>y.
            Arc env (Tup [x, y, cz]) (Tup [dx, dy, Num 0]) start_angle stop_angle mode)))))
        else if emode = Some ''CENTER'' then
          ebind (Point_of coordinate) (\<lambda>center.
          ebind (py_half width) (\<lambda>dx.
          ebind (py_half height) (\<lambda>dy.
            Arc env (as_tuple center) (Tup [dx, dy, Num 0]) start_angle stop_angle mode)))
        else if emode = Some ''RADIUS'' then
          ebind (Point_of coordinate) (\<lambda>center.
            Arc env (as_tuple center) (Tup [width, height, Num 0]) start_angle stop_angle mode)
        else Inl (ValueError (''Unknown arc mode '' @ (case emode of None \<Rightarrow> ''None'' | Some m \<Rightarrow> m))))"

definition arc ::
  "env \<Rightarrow> pyval list \<Rightarrow> string option \<Rightarrow> string option \<Rightarrow> state \<Rightarrow> (error + shape) \<times> state" where
  "arc env args mode ellipse_mode st = draw_on_return (arc_body env args mode ellipse_mode) st"

section \<open>Quads, rectangles and squares\<close>

text \<open>\<^verbatim>\<open>quad\<close> (lines 447-460) before it is wrapped.\<close>

definition quad_body :: "pyval list \<Rightarrow> error + shape" where
  "quad_body args =
     (if length args \<noteq> 8 \<and> length args \<noteq> 4
      then Inl (ValueError ''Unexpected number of arguments passed to quad()'')
      else
        let p1 = (if length args = 8 then Tup (take 2 args) else args ! 0);
            p2 = (if length args = 8 then Tup (take 2 (drop 2 args)) else args ! 1);
            p3 = (if length args = 8 then Tup (take 2 (drop 4 args)) else args ! 2);
            p4 = (if length args = 8 then Tup (drop 6 args) else args ! 3)
        in
        ebind (Point_of p1) (\<lambda>q1.
        ebind (Point_of p2) (\<lambda>q2.
        ebind (Point_of p3) (\<lambda>q3.
        ebind (Point_of p4) (\<lambda>q4.
          Inr (PShape [as_tuple q1, as_tuple q2, as_tuple q3, as_tuple q4] QUADS []))))))"

definition quad :: "pyval list \<Rightarrow> state \<Rightarrow> (error + shape) \<times> state" where
  "quad args st = draw_on_return (\<lambda>_. quad_body args) st"

text \<open>
  The mode chain of \<^verbatim>\<open>rect\<close> (lines 511-531): from the mode, the coordinate and the
  remaining arguments to the corner, the width and the height.
\<close>

definition rect_normalize ::
  "string option \<Rightarrow> pyval \<Rightarrow> pyval list \<Rightarrow> error + (pyval \<times> pyval \<times> pyval)" where
  "rect_normalize mode coordinate args =
     (if mode = Some ''CORNER'' then
        ebind (unpack2 args) (\<lambda>(width, height). Inr (coordinate, width, height))
      else if mode = Some ''CENTER'' then
        ebind (Point_of coordinate) (\<lambda>(cx, cy, cz).
        ebind (unpack2 args) (\<lambda>(width, height).
        ebind (ebind (py_half width) (py_sub cx)) (\<lambda>x.
        ebind (ebind (py_half height) (py_sub cy)) (\<lambda>y.
          Inr (Tup [x, y, cz], width, height)))))
      else if mode = Some ''RADIUS'' then
        ebind (Point_of coordinate) (\<lambda>(cx, cy, cz).
        ebind (unpack2 args) (\<lambda>(half_width, half_height).
        ebind (py_sub cx half_width) (\<lambda>x.
        ebind (py_sub cy half_height) (\<lambda>y.
        ebind (py_double half_width) (\<lambda>width.
        ebind (py_double half_height) (\<lambda>height.
          Inr (Tup [x, y, cz], width, height)))))))
      else if mode = Some ''CORNERS'' then
        ebind (Point_of coordinate) (\<lambda>(x, y, z).
        ebind (unpack1 args) (\<lambda>corner_2.
        ebind (Point_of corner_2) (\<lambda>(x2, y2, z2).
        ebind (py_sub x2 x) (\<lambda>width.
        ebind (py_sub y2 y) (\<lambda>height.
          Inr (Tup [x, y, z], width, height))))))
      else Inl (ValueError (''Unknown rect mode '' @ (case mode of None \<Rightarrow> ''None'' | Some m \<Rightarrow> m))))"

text \<open>\<^verbatim>\<open>rect\<close> (lines 501-537).\<close>

definition rect :: "pyval list \<Rightarrow> string option \<Rightarrow> state \<Rightarrow> (error + shape) \<times> state" where
  "rect args mode st =
     (if length args \<noteq> 4 \<and> length args \<noteq> 3
      then (Inl (ValueError ''Unexpected number of arguments passed to rect()''), st)
      else
        let coordinate = (if length args = 4 then Tup (take 2 args) else args ! 0);
            rest = (if length args = 4 then drop 2 args else drop 1 args);
            mode = (case mode of None \<Rightarrow> rect_mode_var st | Some m \<Rightarrow> Some m)
        in
        case
          ebind (rect_normalize mode coordinate rest) (\<lambda>(corner, width, height).
          ebind (Point_of corner) (\<lambda>(x1, y1, z1).
          ebind (py_add x1 width) (\<lambda>x2.
          ebind (py_add y1 height) (\<lambda>y3.
            Inr [Tup [x1, y1, z1], Tup [x2, y1, z1], Tup [x2, y3, z1], Tup [x1, y3, z1]]))))
        of
          Inl e \<Rightarrow> (Inl e, st)
        | Inr ps \<Rightarrow> quad ps st)"

text \<open>\<^verbatim>\<open>square\<close> (lines 573-585).\<close>

definition square :: "pyval list \<Rightarrow> string option \<Rightarrow> state \<Rightarrow> (error + shape) \<times> state" where
  "square args mode st =
     (if length args \<noteq> 2 \<and> length args \<noteq> 3
      then (Inl (ValueError ''Unexpected number of arguments passed to square()''), st)
      else
        let coordinate = (if length args = 2 then args ! 0 else Tup (take 2 args));
            side_length = (if length args = 2 then args ! 1 else args ! 2);
            mode = (case mode of None \<Rightarrow> rect_mode_var st | Some m \<Rightarrow> Some m)
        in
        if mode = Some ''CORNERS''
        then (Inl (ValueError ''Cannot draw square with CORNERS mode''), st)
        else rect [coordinate, side_length, side_length] mode st)"

text \<open>\<^verbatim>\<open>rect_mode\<close> (lines 597-598): the argument is stored as it is.\<close>

definition rect_mode :: "string option \<Rightarrow> state \<Rightarrow> state" where
  "rect_mode mode st = st\<lparr>rect_mode_var := mode\<rparr>"

section \<open>Ellipses, circles and points\<close>

text \<open>\<^verbatim>\<open>ellipse\<close> (lines 710-729).\<close>

definition ellipse ::
  "env \<Rightarrow> pyval list \<Rightarrow> string option \<Rightarrow> state \<Rightarrow> (error + shape) \<times> state" where
  "ellipse env args mode st =
     (if length args \<noteq> 3 \<and> length args \<noteq> 4
      then (Inl (ValueError ''Unexpected number of arguments passed to ellipse()''), st)
      else
        let coordinate = (if length args = 3 then args ! 0 else Tup (take 2 args));
            rest = (if length args = 3 then drop 1 args else drop 2 args);
            mode = (case mode of None \<Rightarrow> ellipse_mode_var st | Some m \<Rightarrow> Some m)
        in
        case
          (if mode = Some ''CORNERS'' then
             ebind (Point_of coordinate) (\<lambda>(x, y, z).
             ebind (unpack1 rest) (\<lambda>corner_2.
             ebind (Point_of corner_2) (\<lambda>(x2, y2, z2).
             ebind (py_sub x2 x) (\<lambda>width.
             ebind (py_sub y2 y) (\<lambda>height.
               Inr (width, height, Some ''CORNER''))))))
           else ebind (unpack2 rest) (\<lambda>(width, height). Inr (width, height, mode)))
        of
          Inl e \<Rightarrow> (Inl e, st)
        | Inr (width, height, mode) \<Rightarrow>
            arc env [coordinate, width, height, Num 0, Num (pi * 2)] (Some ''CHORD'') mode st)"

text \<open>\<^verbatim>\<open>circle\<close> (lines 765-777).\<close>

definition circle ::
  "env \<Rightarrow> pyval list \<Rightarrow> string option \<Rightarrow> state \<Rightarrow> (error + shape) \<times> state" where
  "circle env args mode st =
     (if length args \<noteq> 2 \<and> length args \<noteq> 3
      then (Inl (ValueError ''Unexpected number of arguments passed to circle()''), st)
      else
        let coordinate = (if length args = 2 then args ! 0 else Tup (take 2 args));
            radius = (if length args = 2 then args ! 1 else args ! 2);
            mode = (case mode of None \<Rightarrow> ellipse_mode_var st | Some m \<Rightarrow> Some m)
        in
        if mode = Some ''CORNERS''
        then (Inl (ValueError ''Cannot create circle in CORNERS mode''), st)
        else ellipse env [coordinate, radius, radius] mode st)"

text \<open>\<^verbatim>\<open>ellipse_mode\<close> (lines 789-790): the argument is stored as it is.\<close>

definition ellipse_mode :: "string option \<Rightarrow> state \<Rightarrow> state" where
  "ellipse_mode mode st = st\<lparr>ellipse_mode_var := mode\<rparr>"

text \<open>
  \<^verbatim>\<open>point\<close> (lines 150-156). The \<open>SQUARE\<close> branch is \<^verbatim>\<open>pass\<close>: control leaves the chain
  and reaches the \<^verbatim>\<open>raise\<close> below it, as it does for a value that matches no branch.
\<close>

definition point :: "env \<Rightarrow> pyval \<Rightarrow> pyval \<Rightarrow> pyval \<Rightarrow> state \<Rightarrow> (error + shape) \<times> state" where
  "point env x y z st =
     (if stroke_cap env = SQUARE then (Inl (ValueError ''Unknown stroke_cap value''), st)
      else if stroke_cap env = PROJECT
        then square [Tup [x, y, z], Num (stroke_weight env)] (Some ''CENTER'') st
      else if stroke_cap env = ROUND
        then circle env [Tup [x, y, z], Num (stroke_weight env / 2)] (Some ''CENTER'') st
      else (Inl (ValueError ''Unknown stroke_cap value''), st))"

section \<open>Curves\<close>

text \<open>\<^verbatim>\<open>p[:3]\<close>: the value must be a sequence.\<close>

fun py_slice3 :: "pyval \<Rightarrow> error + pyval" where
  "py_slice3 (Tup xs) = Inr (Tup (take 3 xs))"
| "py_slice3 (Num _) = Inl TypeError"

text \<open>
  The sampling loop of \<^verbatim>\<open>bezier\<close> (lines 272-278) and of \<^verbatim>\<open>curve\<close> (lines 347-352),
  \<^verbatim>\<open>for i in range(steps + 1)\<close>: \<open>i\<close> is the loop variable, \<open>eval\<close> the point evaluator
  applied to the four control points. The division \<^verbatim>\<open>i / steps\<close> raises for \<open>steps = 0\<close>.
\<close>

function sample_loop ::
  "(real \<Rightarrow> error + pyval) \<Rightarrow> int \<Rightarrow> int \<Rightarrow> pyval list \<Rightarrow> error + pyval list" where
  "sample_loop eval steps i verts =
     (if i < steps + 1 then
        (if steps = 0 then Inl ZeroDivisionError
         else
           (case eval (real_of_int i / real_of_int steps) of
              Inl e \<Rightarrow> Inl e
            | Inr p \<Rightarrow>
                (case py_slice3 p of
                   Inl e \<Rightarrow> Inl e
                 | Inr v \<Rightarrow> sample_loop eval steps (i + 1) (verts @ [v]))))
      else Inr verts)"
  by pat_completeness auto
termination
  by (relation "measure (\<lambda>(eval, steps, i, verts). nat (steps + 1 - i))") auto

declare sample_loop.simps [simp del]

text \<open>The arity dispatch shared by \<^verbatim>\<open>bezier\<close> (lines 263-270) and \<^verbatim>\<open>curve\<close> (lines 338-345).\<close>

definition control_points :: "string \<Rightarrow> pyval list \<Rightarrow> error + (pyval \<times> pyval \<times> pyval \<times> pyval)" where
  "control_points name args =
     (if length args = 4 then Inr (args ! 0, args ! 1, args ! 2, args ! 3)
      else if length args = 8 then
        Inr (Tup (take 2 args), Tup (take 2 (drop 2 args)), Tup (take 2 (drop 4 args)),
             Tup (drop 6 args))
      else if length args = 12 then
        Inr (Tup (take 3 args), Tup (take 3 (drop 3 args)), Tup (take 3 (drop 6 args)),
             Tup (drop 9 args))
      else Inl (ValueError (''Unexpected number of arguments passed to '' @ name @ ''()'')))"

definition bezier_body :: "env \<Rightarrow> pyval list \<Rightarrow> error + shape" where
  "bezier_body env args =
     ebind (control_points ''bezier'' args) (\<lambda>(start, control_point_1, control_point_2, stop).
     ebind (sample_loop (bezier_point env start control_point_1 control_point_2 stop)
              (bezier_resolution env) 0 []) (\<lambda>verts.
       Inr (PShape verts LINE_STRIP [])))"

definition bezier :: "env \<Rightarrow> pyval list \<Rightarrow> state \<Rightarrow> (error + shape) \<times> state" where
  "bezier env args st = draw_on_return (\<lambda>_. bezier_body env args) st"

definition curve_body :: "env \<Rightarrow> pyval list \<Rightarrow> error + shape" where
  "curve_body env args =
     ebind (control_points ''curve'' args) (\<lambda>(point_1, point_2, point_3, point_4).
     ebind (sample_loop (curve_point env point_1 point_2 point_3 point_4)
              (curve_resolution env) 0 []) (\<lambda>verts.
       Inr (PShape verts LINE_STRIP [])))"

definition curve :: "env \<Rightarrow> pyval list \<Rightarrow> state \<Rightarrow> (error + shape) \<times> state" where
  "curve env args st = draw_on_return (\<lambda>_. curve_body env args) st"

section \<open>Notions used to state the properties\<close>

text \<open>
  The number of values of \<^verbatim>\<open>range(start, stop, step)\<close> for a positive step, the table
  index of an angle (lines 114-115), the table stride (line 111), the indices that the
  tessellation visits (the loop's, then the stop index), and the vertex of an index.
\<close>

definition range_count :: "int \<Rightarrow> int \<Rightarrow> int \<Rightarrow> nat" where
  "range_count start stop step = nat ((stop - start + step - 1) div step)"

definition angle_index :: "env \<Rightarrow> real \<Rightarrow> int" where
  "angle_index env a = py_int ((a / (pi * 2)) * real (length (SINCOS env)))"

definition arc_inc :: "env \<Rightarrow> real \<Rightarrow> real \<Rightarrow> real \<Rightarrow> real \<Rightarrow> int" where
  "arc_inc env cx cy rx ry = int (length (SINCOS env)) div acc env cx cy (cx + rx) (cy + ry)"

definition sweep :: "int \<Rightarrow> int \<Rightarrow> int \<Rightarrow> int list" where
  "sweep start_index end_index inc =
     map (\<lambda>k. start_index + int k * inc) [0..<range_count start_index end_index inc] @ [end_index]"

definition table_vertex :: "env \<Rightarrow> real \<Rightarrow> real \<Rightarrow> real \<Rightarrow> real \<Rightarrow> int \<Rightarrow> pyval" where
  "table_vertex env cx cy rx ry idx =
     arc_vertex cx cy rx ry (SINCOS env ! nat (idx mod int (length (SINCOS env))))"

text \<open>
  Modelled from the spec: \<^verbatim>\<open>pmath.utils.SINCOS\<close> is not defined in this module. The spec
  has it as a fixed-size, precomputed ordered sequence of \<open>(sin, cos)\<close> pairs spanning
  one full turn; \<open>sincos_table n\<close> is that table with \<open>n\<close> entries.
\<close>

definition sincos_table :: "nat \<Rightarrow> (real \<times> real) list" where
  "sincos_table n =
     map (\<lambda>i. (sin (2 * pi * real i / real n), cos (2 * pi * real i / real n))) [0..<n]"

text \<open>A uniform scale by \<open>s\<close> as the renderer's transform matrix.\<close>

definition scale_matrix :: "real \<Rightarrow> real list list" where
  "scale_matrix s = [[s, 0, 0, 0], [0, s, 0, 0], [0, 0, s, 0], [0, 0, 0, 1]]"

text \<open>
  Modelled from the spec: \<^verbatim>\<open>curves.bezier_point\<close> and \<^verbatim>\<open>curves.curve_point\<close> are not
  defined in this module. The spec has them as the closed-form cubic Bezier and
  Catmull-Rom blends of four 2D or 3D control points at a parameter \<open>t\<close>, returning a
  point. They are used for the concrete environment below only.
\<close>

fun coords :: "pyval \<Rightarrow> (real \<times> real \<times> real) option" where
  "coords (Tup [Num x, Num y]) = Some (x, y, 0)"
| "coords (Tup [Num x, Num y, Num z]) = Some (x, y, z)"
| "coords _ = None"

definition bezier_blend :: "real \<Rightarrow> real \<Rightarrow> real \<Rightarrow> real \<Rightarrow> real \<Rightarrow> real" where
  "bezier_blend a b c d t =
     (1 - t) ^ 3 * a + 3 * (1 - t) ^ 2 * t * b + 3 * (1 - t) * t ^ 2 * c + t ^ 3 * d"

definition catmull_rom_blend :: "real \<Rightarrow> real \<Rightarrow> real \<Rightarrow> real \<Rightarrow> real \<Rightarrow> real" where
  "catmull_rom_blend a b c d t =
     (2 * b + (c - a) * t + (2 * a - 5 * b + 4 * c - d) * t ^ 2
        + (3 * b - a - 3 * c + d) * t ^ 3) / 2"

definition blend_point ::
  "(real \<Rightarrow> real \<Rightarrow> real \<Rightarrow> real \<Rightarrow> real \<Rightarrow> real) \<Rightarrow> pyval \<Rightarrow> pyval \<Rightarrow> pyval \<Rightarrow> pyval \<Rightarrow> real
     \<Rightarrow> error + pyval" where
  "blend_point f p1 p2 p3 p4 t =
     (case (coords p1, coords p2, coords p3, coords p4) of
        (Some (x1, y1, z1), Some (x2, y2, z2), Some (x3, y3, z3), Some (x4, y4, z4)) \<Rightarrow>
          Inr (Tup [Num (f x1 x2 x3 x4 t), Num (f y1 y2 y3 y4 t), Num (f z1 z2 z3 z4 t)])
      | _ \<Rightarrow> Inl TypeError)"

text \<open>
  A concrete environment: the identity transform, a table of 720 entries, twenty steps
  per curve.
\<close>

definition example_env :: env where
  "example_env =
     \<lparr>transform_matrix = scale_matrix 1, stroke_cap = ROUND, stroke_weight = 4,
      SINCOS = sincos_table 720, bezier_resolution = 20, curve_resolution = 20,
      bezier_point = blend_point bezier_blend, curve_point = blend_point catmull_rom_blend\<rparr>"

section \<open>Basic facts\<close>

lemma ebind_Inr [simp]: "ebind (Inr v) f = f v"
  by (simp add: ebind_def)

lemma ebind_Inl [simp]: "ebind (Inl e) f = Inl e"
  by (simp add: ebind_def)

lemma py_int_nonneg: "0 \<le> x \<Longrightarrow> py_int x = \<lfloor>x\<rfloor>"
  by (simp add: py_int_def)



lemma acc_bounds: "20 \<le> acc env c1x c1y c2x c2y \<and> acc env c1x c1y c2x c2y \<le> 200"
  by (simp add: acc_def MIN_POINT_ACCURACY_def MAX_POINT_ACCURACY_def)

lemma inc_div: "0 < a \<Longrightarrow> py_int (real n / real_of_int a) = int n div a"
proof -
  assume a: "0 < a"
  have "0 \<le> real n / real_of_int a" using a by simp
  then have "py_int (real n / real_of_int a) = \<lfloor>real_of_int (int n) / real_of_int a\<rfloor>"
    by (simp add: py_int_nonneg)
  also have "\<dots> = int n div a" by (rule floor_divide_of_int_eq)
  finally show ?thesis .
qed

lemma table_get_ok:
  "tbl \<noteq> [] \<Longrightarrow> table_get tbl idx = Inr (tbl ! nat (idx mod int (length tbl)))"
proof -
  assume "tbl \<noteq> []"
  then have n: "0 < int (length tbl)" by simp
  have "\<not> idx mod int (length tbl) < 0" "idx mod int (length tbl) < int (length tbl)"
    using n by (simp_all add: not_less)
  then show ?thesis using n by (simp add: table_get_def Let_def)
qed

lemma range_count_0: "0 < step \<Longrightarrow> stop \<le> start \<Longrightarrow> range_count start stop step = 0"
proof -
  assume s: "0 < step" and le: "stop \<le> start"
  have "\<not> step \<le> stop - start + step - 1" using le by simp
  then have "\<not> 0 < (stop - start + step - 1) div step"
    using s by (simp add: pos_imp_zdiv_pos_iff)
  then show ?thesis by (simp add: range_count_def)
qed

lemma range_count_Suc:
  "0 < step \<Longrightarrow> start < stop \<Longrightarrow>
     range_count start stop step = Suc (range_count (start + step) stop step)"
proof -
  assume s: "0 < step" and lt: "start < stop"
  have eq: "stop - start + step - 1 = (stop - (start + step) + step - 1) + step" by simp
  have nn: "0 \<le> (stop - (start + step) + step - 1) div step"
    using s lt by (simp add: pos_imp_zdiv_nonneg_iff)
  have "(stop - start + step - 1) div step = (stop - (start + step) + step - 1) div step + 1"
    using s by (subst eq) simp
  then show ?thesis using nn by (simp add: range_count_def nat_add_distrib)
qed

lemma arc_loop_stop:
  "\<not> (0 < inc \<and> idx < e) \<Longrightarrow> arc_loop tbl c1x c1y rx ry idx e inc vs = Inr vs"
  by (subst arc_loop.simps) auto

lemma arc_loop_step:
  "0 < inc \<Longrightarrow> idx < e \<Longrightarrow>
     arc_loop tbl c1x c1y rx ry idx e inc vs =
       (case table_get tbl idx of
          Inl err \<Rightarrow> Inl err
        | Inr sc \<Rightarrow> arc_loop tbl c1x c1y rx ry (idx + inc) e inc (vs @ [arc_vertex c1x c1y rx ry sc]))"
  by (subst arc_loop.simps) simp

lemma arc_loop_acc:
  "arc_loop tbl c1x c1y rx ry idx e inc vs =
     (case arc_loop tbl c1x c1y rx ry idx e inc [] of Inl err \<Rightarrow> Inl err | Inr r \<Rightarrow> Inr (vs @ r))"
proof (induction "nat (e - idx)" arbitrary: idx vs rule: less_induct)
  case less
  show ?case
  proof (cases "0 < inc \<and> idx < e")
    case False
    then show ?thesis by (simp add: arc_loop_stop)
  next
    case True
    then have m: "nat (e - (idx + inc)) < nat (e - idx)" by simp
    show ?thesis
    proof (cases "table_get tbl idx")
      case (Inl err)
      with True show ?thesis by (simp add: arc_loop_step)
    next
      case (Inr sc)
      let ?v = "arc_vertex c1x c1y rx ry sc"
      have a: "arc_loop tbl c1x c1y rx ry idx e inc vs =
                 arc_loop tbl c1x c1y rx ry (idx + inc) e inc (vs @ [?v])"
        using True Inr by (simp add: arc_loop_step)
      have b: "arc_loop tbl c1x c1y rx ry idx e inc [] =
                 arc_loop tbl c1x c1y rx ry (idx + inc) e inc [?v]"
        using True Inr by (simp add: arc_loop_step)
      have h1: "arc_loop tbl c1x c1y rx ry (idx + inc) e inc (vs @ [?v]) =
          (case arc_loop tbl c1x c1y rx ry (idx + inc) e inc [] of
             Inl err \<Rightarrow> Inl err | Inr r \<Rightarrow> Inr ((vs @ [?v]) @ r))"
        by (rule less.hyps[OF m])
      have h2: "arc_loop tbl c1x c1y rx ry (idx + inc) e inc [?v] =
          (case arc_loop tbl c1x c1y rx ry (idx + inc) e inc [] of
             Inl err \<Rightarrow> Inl err | Inr r \<Rightarrow> Inr ([?v] @ r))"
        by (rule less.hyps[OF m])
      show ?thesis
        unfolding a b h1 h2 by (simp split: sum.splits)
    qed
  qed
qed

lemma arc_loop_ok:
  "tbl \<noteq> [] \<Longrightarrow> 0 < inc \<Longrightarrow>
     arc_loop tbl c1x c1y rx ry idx e inc vs =
       Inr (vs @ map (\<lambda>k. arc_vertex c1x c1y rx ry (tbl ! nat ((idx + int k * inc) mod int (length tbl))))
                   [0..<range_count idx e inc])"
proof (induction "nat (e - idx)" arbitrary: idx vs rule: less_induct)
  case less
  show ?case
  proof (cases "idx < e")
    case False
    then show ?thesis using less.prems by (simp add: arc_loop_stop range_count_0)
  next
    case True
    then have m: "nat (e - (idx + inc)) < nat (e - idx)" using less.prems by simp
    let ?v = "arc_vertex c1x c1y rx ry (tbl ! nat (idx mod int (length tbl)))"
    have a: "arc_loop tbl c1x c1y rx ry idx e inc vs =
               arc_loop tbl c1x c1y rx ry (idx + inc) e inc (vs @ [?v])"
      using True less.prems by (simp add: arc_loop_step table_get_ok)
    have u: "[0..<Suc (range_count (idx + inc) e inc)] = 0 # map Suc [0..<range_count (idx + inc) e inc]"
      by (simp add: upt_conv_Cons map_Suc_upt del: upt_Suc)
    show ?thesis
      unfolding a less.hyps[OF m less.prems] range_count_Suc[OF less.prems(2) True] u
      by (simp add: o_def algebra_simps)
  qed
qed

lemma ebind_eq_Inr_iff: "ebind m f = Inr v \<longleftrightarrow> (\<exists>x. m = Inr x \<and> f x = Inr v)"
  by (cases m) simp_all

lemma as_num_eq_Inr_iff [simp]: "as_num x = Inr a \<longleftrightarrow> x = Num a"
  by (cases x) auto

lemma py_add_Num_eq_Inr_iff [simp]: "py_add (Num c) r = Inr v \<longleftrightarrow> (\<exists>b. r = Num b \<and> v = Num (c + b))"
  by (cases r) auto

lemma Arc_tessellate_InrD:
  assumes "Arc_tessellate env center radii a0 a1 mode = Inr vs"
  shows "\<exists>cx cy rx ry s0 s1. py_index center 0 = Inr (Num cx) \<and> py_index center 1 = Inr (Num cy)
           \<and> py_index radii 0 = Inr (Num rx) \<and> py_index radii 1 = Inr (Num ry)
           \<and> a0 = Num s0 \<and> a1 = Num s1"
  using assms
  by (auto simp: Arc_tessellate_def ebind_eq_Inr_iff Let_def split: if_splits)

lemma inc_pos:
  assumes "200 \<le> length (SINCOS env)"
  shows "0 < arc_inc env cx cy rx ry"
proof -
  have "acc env cx cy (cx + rx) (cy + ry) \<le> int (length (SINCOS env))"
    using acc_bounds[of env cx cy "cx + rx" "cy + ry"] assms by linarith
  moreover have "0 < acc env cx cy (cx + rx) (cy + ry)"
    using acc_bounds[of env cx cy "cx + rx" "cy + ry"] by linarith
  ultimately show ?thesis by (simp add: arc_inc_def pos_imp_zdiv_pos_iff)
qed

lemma Arc_tessellate_form:
  assumes "py_index center 0 = Inr (Num cx)" "py_index center 1 = Inr (Num cy)"
      and "py_index radii 0 = Inr (Num rx)" "py_index radii 1 = Inr (Num ry)"
  shows "Arc_tessellate env center radii (Num s0) (Num s1) mode =
     (if arc_inc env cx cy rx ry = 0 then Inl (ValueError ''range() arg 3 must not be zero'')
      else
        ebind (arc_loop (SINCOS env) cx cy rx ry (angle_index env s0) (angle_index env s1)
                 (arc_inc env cx cy rx ry)
                 (if mode = Some ''PIE'' \<or> mode = None then [Tup [Num cx, Num cy, Num 0]] else []))
          (\<lambda>verts.
        ebind (table_get (SINCOS env) (angle_index env s1)) (\<lambda>sc.
          Inr (if mode = Some ''CHORD'' \<or> mode = Some ''PIE''
               then (verts @ [arc_vertex cx cy rx ry sc]) @ [hd (verts @ [arc_vertex cx cy rx ry sc])]
               else verts @ [arc_vertex cx cy rx ry sc]))))"
proof -
  have a: "0 < acc env cx cy (cx + rx) (cy + ry)"
    using acc_bounds[of env cx cy "cx + rx" "cy + ry"] by linarith
  show ?thesis
    using assms
    by (simp add: Arc_tessellate_def Let_def inc_div[OF a] arc_inc_def angle_index_def)
qed

lemma Arc_tessellate_ok:
  assumes "py_index center 0 = Inr (Num cx)" "py_index center 1 = Inr (Num cy)"
      and "py_index radii 0 = Inr (Num rx)" "py_index radii 1 = Inr (Num ry)"
      and "200 \<le> length (SINCOS env)"
  shows "Arc_tessellate env center radii (Num s0) (Num s1) mode =
     Inr (let verts =
            (if mode = Some ''PIE'' \<or> mode = None then [Tup [Num cx, Num cy, Num 0]] else [])
            @ map (table_vertex env cx cy rx ry)
                (sweep (angle_index env s0) (angle_index env s1) (arc_inc env cx cy rx ry))
          in if mode = Some ''CHORD'' \<or> mode = Some ''PIE'' then verts @ [hd verts] else verts)"
proof -
  have ne: "SINCOS env \<noteq> []" using assms(5) by auto
  have pos: "0 < arc_inc env cx cy rx ry" by (rule inc_pos[OF assms(5)])
  show ?thesis
    using pos
    by (simp add: Arc_tessellate_form[OF assms(1-4)] arc_loop_ok[OF ne pos] table_get_ok[OF ne]
        sweep_def table_vertex_def o_def Let_def)
qed

lemma circle_CENTER:
  assumes "Point_of c = Inr p"
      and "(case mode of None \<Rightarrow> ellipse_mode_var st | Some m \<Rightarrow> Some m) = Some ''CENTER''"
  shows "circle env [c, Num d] mode st =
     draw_on_return (\<lambda>_. Arc env (as_tuple p) (Tup [Num (d / 2), Num (d / 2), Num 0])
                           (Num 0) (Num (pi * 2)) (Some ''CHORD'')) st"
  using assms
  by (simp add: circle_def ellipse_def arc_def arc_body_def unpack2_def Let_def draw_on_return_def)







section \<open>Points\<close>

text \<open>
  C3. With the stroke cap \<open>SQUARE\<close>, \<^verbatim>\<open>point\<close> does not return a single-vertex shape: the
  branch is \<^verbatim>\<open>pass\<close>, so the call ends in the \<open>ValueError\<close> meant for unknown stroke caps,
  at every point and in every state, and nothing is rendered.
\<close>

theorem point_SQUARE_raises:
  "point (env\<lparr>stroke_cap := SQUARE\<rparr>) x y z st = (Inl (ValueError ''Unknown stroke_cap value''), st)"
  by (simp add: point_def)

section \<open>Rejected calls\<close>

text \<open>
  C8. A call of \<^verbatim>\<open>rect\<close>, \<^verbatim>\<open>square\<close>, \<^verbatim>\<open>ellipse\<close>, \<^verbatim>\<open>circle\<close> or \<^verbatim>\<open>arc\<close> with an argument
  count outside the supported ones returns the \<open>ValueError\<close> of that constructor and
  leaves the state, and with it the list of rendered shapes, as it was; \<^verbatim>\<open>square\<close> and
  \<^verbatim>\<open>circle\<close> with \<^verbatim>\<open>mode='CORNERS'\<close> do the same for all arguments.
\<close>

theorem bad_calls_raise_without_render:
  "(length args \<noteq> 3 \<and> length args \<noteq> 4 \<longrightarrow>
      rect args mode st = (Inl (ValueError ''Unexpected number of arguments passed to rect()''), st))
   \<and> (length args \<noteq> 2 \<and> length args \<noteq> 3 \<longrightarrow>
      square args mode st = (Inl (ValueError ''Unexpected number of arguments passed to square()''), st))
   \<and> (length args \<noteq> 3 \<and> length args \<noteq> 4 \<longrightarrow>
      ellipse env args mode st =
        (Inl (ValueError ''Unexpected number of arguments passed to ellipse()''), st))
   \<and> (length args \<noteq> 2 \<and> length args \<noteq> 3 \<longrightarrow>
      circle env args mode st =
        (Inl (ValueError ''Unexpected number of arguments passed to circle()''), st))
   \<and> (length args \<noteq> 5 \<and> length args \<noteq> 6 \<longrightarrow>
      arc env args mode emode st =
        (Inl (ValueError ''Unexpected number of arguments passed to arc()''), st))
   \<and> (\<exists>msg. square args (Some ''CORNERS'') st = (Inl (ValueError msg), st))
   \<and> (\<exists>msg. circle env args (Some ''CORNERS'') st = (Inl (ValueError msg), st))"
  by (simp add: rect_def square_def ellipse_def circle_def arc_def arc_body_def
      draw_on_return_def Let_def)

theorem bad_calls_raise_without_render_witness:
  "rect [Num 0, Num 0] None initial_state =
      (Inl (ValueError ''Unexpected number of arguments passed to rect()''), initial_state)
   \<and> square [Num 0] None initial_state =
      (Inl (ValueError ''Unexpected number of arguments passed to square()''), initial_state)
   \<and> ellipse example_env [Num 0, Num 0, Num 1, Num 1, Num 1] None initial_state =
      (Inl (ValueError ''Unexpected number of arguments passed to ellipse()''), initial_state)
   \<and> circle example_env [Num 0, Num 0, Num 1, Num 1] None initial_state =
      (Inl (ValueError ''Unexpected number of arguments passed to circle()''), initial_state)
   \<and> arc example_env [Num 0, Num 0, Num 1, Num 1] None None initial_state =
      (Inl (ValueError ''Unexpected number of arguments passed to arc()''), initial_state)
   \<and> (\<exists>msg. square [Tup [Num 0, Num 0], Num 1] (Some ''CORNERS'') initial_state =
              (Inl (ValueError msg), initial_state))
   \<and> (\<exists>msg. circle example_env [Tup [Num 0, Num 0], Num 1] (Some ''CORNERS'') initial_state =
              (Inl (ValueError msg), initial_state))"
  using bad_calls_raise_without_render [of "[Num 0, Num 0]" None initial_state example_env None]
    bad_calls_raise_without_render [of "[Num 0]" None initial_state example_env None]
    bad_calls_raise_without_render [of "[Num 0, Num 0, Num 1, Num 1, Num 1]" None initial_state example_env None]
    bad_calls_raise_without_render [of "[Num 0, Num 0, Num 1, Num 1]" None initial_state example_env None]
    bad_calls_raise_without_render [of "[Tup [Num 0, Num 0], Num 1]" None initial_state example_env None]
  by simp

section \<open>The subdivision count and the circle\<close>







lemma Arc_ok:
  assumes "py_index center 0 = Inr (Num cx)" "py_index center 1 = Inr (Num cy)"
      and "py_index radii 0 = Inr (Num rx)" "py_index radii 1 = Inr (Num ry)"
      and "200 \<le> length (SINCOS env)"
  shows "Arc env center radii (Num s0) (Num s1) mode =
     Inr (PShape
           (let verts =
              (if mode = Some ''PIE'' \<or> mode = None then [Tup [Num cx, Num cy, Num 0]] else [])
              @ map (table_vertex env cx cy rx ry)
                  (sweep (angle_index env s0) (angle_index env s1) (arc_inc env cx cy rx ry))
            in if mode = Some ''CHORD'' \<or> mode = Some ''PIE'' then verts @ [hd verts] else verts)
           (if mode = Some ''OPEN'' \<or> mode = Some ''CHORD'' then TESS else TRIANGLE_FAN) [])"
  by (simp add: Arc_def Arc_tessellate_ok[OF assms] Let_def)






lemma length_sincos_table [simp]: "length (sincos_table n) = n"
  by (simp add: sincos_table_def)




section \<open>Points with round and projecting caps\<close>

text \<open>
  C2, evaluated. With the stroke cap \<open>ROUND\<close>, \<^verbatim>\<open>point(x, y, z)\<close> is the arc around
  \<open>(x, y, z)\<close> from 0 to \<open>2 pi\<close> whose radii are a quarter of the stroke weight: the call
  hands half the stroke weight to \<^verbatim>\<open>circle\<close> in \<open>CENTER\<close> mode, where the argument is the
  diameter, so the circle's diameter is half the stroke weight, not the stroke weight.
  With \<open>PROJECT\<close> it is the quad of side length equal to the stroke weight centred at
  the point.
\<close>

theorem point_ROUND_quarter_radius:
  "point (env\<lparr>stroke_cap := ROUND\<rparr>) (Num x) (Num y) (Num z) st =
     draw_on_return
       (\<lambda>_. Arc (env\<lparr>stroke_cap := ROUND\<rparr>) (Tup [Num x, Num y, Num z])
               (Tup [Num (stroke_weight env / 4), Num (stroke_weight env / 4), Num 0])
               (Num 0) (Num (pi * 2)) (Some ''CHORD'')) st
   \<and> point (env\<lparr>stroke_cap := PROJECT\<rparr>) (Num x) (Num y) (Num z) st =
     quad [Tup [Num (x - stroke_weight env / 2), Num (y - stroke_weight env / 2), Num z],
           Tup [Num (x - stroke_weight env / 2 + stroke_weight env), Num (y - stroke_weight env / 2), Num z],
           Tup [Num (x - stroke_weight env / 2 + stroke_weight env),
                Num (y - stroke_weight env / 2 + stroke_weight env), Num z],
           Tup [Num (x - stroke_weight env / 2), Num (y - stroke_weight env / 2 + stroke_weight env), Num z]]
       st"
proof
  have "circle (env\<lparr>stroke_cap := ROUND\<rparr>) [Tup [Num x, Num y, Num z], Num (stroke_weight env / 2)]
          (Some ''CENTER'') st =
        draw_on_return
       (\<lambda>_. Arc (env\<lparr>stroke_cap := ROUND\<rparr>) (as_tuple (Num x, Num y, Num z))
               (Tup [Num (stroke_weight env / 2 / 2), Num (stroke_weight env / 2 / 2), Num 0])
               (Num 0) (Num (pi * 2)) (Some ''CHORD'')) st"
    by (rule circle_CENTER) simp_all
  then show "point (env\<lparr>stroke_cap := ROUND\<rparr>) (Num x) (Num y) (Num z) st =
     draw_on_return
       (\<lambda>_. Arc (env\<lparr>stroke_cap := ROUND\<rparr>) (Tup [Num x, Num y, Num z])
               (Tup [Num (stroke_weight env / 4), Num (stroke_weight env / 4), Num 0])
               (Num 0) (Num (pi * 2)) (Some ''CHORD'')) st"
    by (simp add: point_def)
next
  show "point (env\<lparr>stroke_cap := PROJECT\<rparr>) (Num x) (Num y) (Num z) st =
     quad [Tup [Num (x - stroke_weight env / 2), Num (y - stroke_weight env / 2), Num z],
           Tup [Num (x - stroke_weight env / 2 + stroke_weight env), Num (y - stroke_weight env / 2), Num z],
           Tup [Num (x - stroke_weight env / 2 + stroke_weight env),
                Num (y - stroke_weight env / 2 + stroke_weight env), Num z],
           Tup [Num (x - stroke_weight env / 2), Num (y - stroke_weight env / 2 + stroke_weight env), Num z]]
       st"
    by (simp add: point_def square_def rect_def rect_normalize_def unpack2_def Let_def)
qed

section \<open>Rectangle normalisation\<close>

lemma unpack1_two: "length rest = 2 \<Longrightarrow> unpack1 rest = Inl (ValueError ''too many values to unpack'')"
  by (auto simp: unpack1_def split: list.splits)

lemma rect_normalize_CORNERS_two:
  assumes "length rest = 2"
  shows "\<exists>e. rect_normalize (Some ''CORNERS'') coordinate rest = Inl e"
proof (cases "Point_of coordinate")
  case (Inl e)
  then show ?thesis by (simp add: rect_normalize_def)
next
  case (Inr p)
  then show ?thesis
    by (cases p) (simp add: rect_normalize_def unpack1_two[OF assms])
qed

text \<open>
  C6, evaluated for \<open>CORNERS\<close>. \<^verbatim>\<open>rect\<close> with \<^verbatim>\<open>mode='CORNERS'\<close> returns an error for every
  argument tuple: the arity dispatch leaves two remaining arguments, and the \<open>CORNERS\<close>
  branch unpacks exactly one (\<^verbatim>\<open>corner_2, = args\<close>). No input reaches the width and height
  of that branch, so there is nothing to round-trip.
\<close>

theorem rect_CORNERS_always_raises:
  "\<exists>e. rect args (Some ''CORNERS'') st = (Inl e, st)"
proof (cases "length args \<noteq> 4 \<and> length args \<noteq> 3")
  case True
  then show ?thesis by (simp add: rect_def)
next
  case False
  define coordinate where "coordinate = (if length args = 4 then Tup (take 2 args) else args ! 0)"
  define rest where "rest = (if length args = 4 then drop 2 args else drop 1 args)"
  have "length rest = 2" using False by (auto simp: rest_def)
  then obtain e where e: "rect_normalize (Some ''CORNERS'') coordinate rest = Inl e"
    using rect_normalize_CORNERS_two by blast
  have n: "\<not> (length args \<noteq> 4 \<and> length args \<noteq> 3)" using False by simp
  have "rect args (Some ''CORNERS'') st = (Inl e, st)"
    unfolding rect_def Let_def if_not_P[OF n] coordinate_def[symmetric] rest_def[symmetric]
    by (simp add: e)
  then show ?thesis by blast
qed

text \<open>
  The other three modes on numbers, in exact arithmetic: the corner and the dimensions
  that the mode chain computes, and the coordinate recovered from them.
\<close>

lemma rect_normalize_roundtrip:
  "rect_normalize (Some ''CORNER'') (Tup [Num x, Num y]) [Num w, Num h] =
     Inr (Tup [Num x, Num y], Num w, Num h)"
  "rect_normalize (Some ''CENTER'') (Tup [Num cx, Num cy]) [Num w, Num h] =
     Inr (Tup [Num (cx - w / 2), Num (cy - h / 2), Num 0], Num w, Num h)"
  "(cx - w / 2) + w / 2 = cx \<and> (cy - h / 2) + h / 2 = cy"
  "rect_normalize (Some ''RADIUS'') (Tup [Num cx, Num cy]) [Num hw, Num hh] =
     Inr (Tup [Num (cx - hw), Num (cy - hh), Num 0], Num (2 * hw), Num (2 * hh))"
  "(cx - hw) + (2 * hw) / 2 = cx \<and> (cy - hh) + (2 * hh) / 2 = cy \<and> (2 * hw) / 2 = hw \<and> (2 * hh) / 2 = hh"
  by (simp_all add: rect_normalize_def unpack2_def)

lemma rect_CENTER_example:
  "rect [Tup [Num 10, Num 10], Num 4, Num 6] (Some ''CENTER'') st =
     quad [Tup [Num 8, Num 7, Num 0], Tup [Num 12, Num 7, Num 0],
           Tup [Num 12, Num 13, Num 0], Tup [Num 8, Num 13, Num 0]] st"
  by (simp add: rect_def rect_normalize_def unpack2_def Let_def)


section \<open>Topology and closure of an arc\<close>

lemma Arc_tessellate_split:
  assumes "Arc_tessellate env center radii a0 a1 mode = Inr vs"
  shows "\<exists>cx cy pts. py_index center 0 = Inr (Num cx) \<and> py_index center 1 = Inr (Num cy)
           \<and> Arc_tessellate env center radii a0 a1 (Some ''OPEN'') = Inr pts \<and> pts \<noteq> []
           \<and> vs = (if mode = Some ''PIE'' \<or> mode = None then [Tup [Num cx, Num cy, Num 0]] else [])
                    @ pts
                    @ (if mode = Some ''CHORD'' \<or> mode = Some ''PIE''
                       then [hd ((if mode = Some ''PIE'' \<or> mode = None
                                  then [Tup [Num cx, Num cy, Num 0]] else []) @ pts)]
                       else [])"
proof -
  obtain cx cy rx ry s0 s1 where
    n: "py_index center 0 = Inr (Num cx)" "py_index center 1 = Inr (Num cy)"
       "py_index radii 0 = Inr (Num rx)" "py_index radii 1 = Inr (Num ry)"
    and a: "a0 = Num s0" "a1 = Num s1"
    using Arc_tessellate_InrD[OF assms] by blast
  let ?pre = "if mode = Some ''PIE'' \<or> mode = None then [Tup [Num cx, Num cy, Num 0]] else []"
  let ?loop = "arc_loop (SINCOS env) cx cy rx ry (angle_index env s0) (angle_index env s1)
                 (arc_inc env cx cy rx ry)"
  have f: "Arc_tessellate env center radii (Num s0) (Num s1) mode = Inr vs"
    using assms a by simp
  have inc: "arc_inc env cx cy rx ry \<noteq> 0"
    using f unfolding Arc_tessellate_form[OF n] by (auto split: if_splits)
  obtain verts sc where
    l: "?loop ?pre = Inr verts" and t: "table_get (SINCOS env) (angle_index env s1) = Inr sc"
    and v: "vs = (if mode = Some ''CHORD'' \<or> mode = Some ''PIE''
               then (verts @ [arc_vertex cx cy rx ry sc]) @ [hd (verts @ [arc_vertex cx cy rx ry sc])]
               else verts @ [arc_vertex cx cy rx ry sc])"
    using f inc unfolding Arc_tessellate_form[OF n] by (auto simp: ebind_eq_Inr_iff)
  obtain r where r: "?loop [] = Inr r" and vr: "verts = ?pre @ r"
    using l by (subst (asm) arc_loop_acc) (auto split: sum.splits)
  let ?pts = "r @ [arc_vertex cx cy rx ry sc]"
  have o: "Arc_tessellate env center radii a0 a1 (Some ''OPEN'') = Inr ?pts"
    unfolding a Arc_tessellate_form[OF n] using inc r t by simp
  have "vs = ?pre @ ?pts @ (if mode = Some ''CHORD'' \<or> mode = Some ''PIE''
                            then [hd (?pre @ ?pts)] else [])"
    unfolding v vr by simp
  with n(1,2) o show ?thesis by blast
qed

text \<open>
  C5. Whenever \<^verbatim>\<open>Arc\<close> returns a shape, its topology tag is \<open>TESS\<close> for the closure modes
  \<open>OPEN\<close> and \<open>CHORD\<close> and \<open>TRIANGLE_FAN\<close> for every other mode; its vertices are the
  vertices \<open>pts\<close> of the same arc in \<open>OPEN\<close> mode (which do not depend on the mode and
  are not empty), preceded by the centre \<open>(cx, cy, 0)\<close> exactly for \<open>PIE\<close> and for no mode,
  and followed by the first vertex of the list exactly for \<open>CHORD\<close> and \<open>PIE\<close>.
\<close>

theorem Arc_topology_and_closure:
  assumes "Arc env center radii a0 a1 mode = Inr sh"
  shows "shape_type sh = (if mode = Some ''OPEN'' \<or> mode = Some ''CHORD'' then TESS else TRIANGLE_FAN)
     \<and> (\<exists>cx cy pts. py_index center 0 = Inr (Num cx) \<and> py_index center 1 = Inr (Num cy)
           \<and> Arc_tessellate env center radii a0 a1 (Some ''OPEN'') = Inr pts \<and> pts \<noteq> []
           \<and> vertices sh =
                (if mode = Some ''PIE'' \<or> mode = None then [Tup [Num cx, Num cy, Num 0]] else [])
                @ pts
                @ (if mode = Some ''CHORD'' \<or> mode = Some ''PIE''
                   then [hd ((if mode = Some ''PIE'' \<or> mode = None
                              then [Tup [Num cx, Num cy, Num 0]] else []) @ pts)]
                   else []))"
proof -
  obtain vs where vs: "Arc_tessellate env center radii a0 a1 mode = Inr vs"
    and sh: "sh = PShape vs (if mode = Some ''OPEN'' \<or> mode = Some ''CHORD'' then TESS else TRIANGLE_FAN) []"
    using assms by (auto simp: Arc_def Let_def ebind_eq_Inr_iff)
  show ?thesis using Arc_tessellate_split[OF vs] by (simp add: sh)
qed


text \<open>A half ellipse in \<open>PIE\<close> mode: a fan that starts and ends at the centre.\<close>

theorem Arc_topology_and_closure_witness:
  "\<exists>sh. Arc example_env (Tup [Num 0, Num 0, Num 0]) (Tup [Num 1, Num 1, Num 0]) (Num 0) (Num pi)
            (Some ''PIE'') = Inr sh
        \<and> shape_type sh = TRIANGLE_FAN
        \<and> hd (vertices sh) = Tup [Num 0, Num 0, Num 0]
        \<and> last (vertices sh) = Tup [Num 0, Num 0, Num 0]"
proof -
  have L: "200 \<le> length (SINCOS example_env)" by (simp add: example_env_def)
  obtain sh where sh: "Arc example_env (Tup [Num 0, Num 0, Num 0]) (Tup [Num 1, Num 1, Num 0])
                         (Num 0) (Num pi) (Some ''PIE'') = Inr sh"
    using Arc_ok[where center = "Tup [Num 0, Num 0, Num 0]" and radii = "Tup [Num 1, Num 1, Num 0]"
                   and cx = 0 and cy = 0 and rx = 1 and ry = 1, OF _ _ _ _ L]
    by simp
  from Arc_topology_and_closure [OF sh]
  obtain cx cy pts where
    t: "shape_type sh = TRIANGLE_FAN"
    and c: "py_index (Tup [Num 0, Num 0, Num 0]) 0 = Inr (Num cx)"
           "py_index (Tup [Num 0, Num 0, Num 0]) 1 = Inr (Num cy)"
    and v: "vertices sh = [Tup [Num cx, Num cy, Num 0]] @ pts @ [Tup [Num cx, Num cy, Num 0]]"
    by auto
  have "cx = 0" "cy = 0" using c by simp_all
  then show ?thesis using sh t v by simp
qed

section \<open>Arcs of any span\<close>










section \<open>Sampled curves\<close>

lemma sample_loop_stop:
  "\<not> i < steps + 1 \<Longrightarrow> sample_loop eval steps i vs = Inr vs"
  by (subst sample_loop.simps) simp

lemma sample_loop_step:
  "i < steps + 1 \<Longrightarrow> steps \<noteq> 0 \<Longrightarrow> eval (real_of_int i / real_of_int steps) = Inr (Tup p) \<Longrightarrow>
     sample_loop eval steps i vs = sample_loop eval steps (i + 1) (vs @ [Tup (take 3 p)])"
  by (subst sample_loop.simps) simp

lemma sample_loop_ok:
  assumes "0 < steps"
      and "\<forall>t. 0 \<le> t \<and> t \<le> 1 \<longrightarrow> eval t = Inr (Tup (P t))"
      and "0 \<le> i"
  shows "sample_loop eval steps i vs =
           Inr (vs @ map (\<lambda>j. Tup (take 3 (P (real_of_int j / real_of_int steps)))) [i..steps])"
  using assms(3)
proof (induction "nat (steps + 1 - i)" arbitrary: i vs rule: less_induct)
  case less
  show ?case
  proof (cases "i < steps + 1")
    case False
    then show ?thesis by (simp add: sample_loop_stop)
  next
    case True
    have t: "0 \<le> real_of_int i / real_of_int steps" "real_of_int i / real_of_int steps \<le> 1"
      using True less.prems assms(1) by simp_all
    have e: "eval (real_of_int i / real_of_int steps) = Inr (Tup (P (real_of_int i / real_of_int steps)))"
      using assms(2) t by blast
    have m: "nat (steps + 1 - (i + 1)) < nat (steps + 1 - i)" using True by simp
    have u: "[i..steps] = i # [i + 1..steps]" using True by (simp add: upto_rec1)
    have s: "sample_loop eval steps i vs =
               sample_loop eval steps (i + 1) (vs @ [Tup (take 3 (P (real_of_int i / real_of_int steps)))])"
      using True assms(1) e by (intro sample_loop_step) simp_all
    show ?thesis
      unfolding s u using less.hyps[OF m] less.prems by simp
  qed
qed

lemma control_points_grouping:
  assumes "args = [a, b, c, d]
     \<or> args = [x1, y1, x2, y2, x3, y3, x4, y4]
        \<and> a = Tup [x1, y1] \<and> b = Tup [x2, y2] \<and> c = Tup [x3, y3] \<and> d = Tup [x4, y4]
     \<or> args = [x1, y1, z1, x2, y2, z2, x3, y3, z3, x4, y4, z4]
        \<and> a = Tup [x1, y1, z1] \<and> b = Tup [x2, y2, z2] \<and> c = Tup [x3, y3, z3]
        \<and> d = Tup [x4, y4, z4]"
  shows "control_points name args = Inr (a, b, c, d)"
  using assms by (auto simp: control_points_def)

lemma sampled_hd_last:
  assumes "0 < steps"
  shows "hd (map (\<lambda>j. Tup (take 3 (P (real_of_int j / real_of_int steps)))) [0..steps]) = Tup (take 3 (P 0))"
    and "last (map (\<lambda>j. Tup (take 3 (P (real_of_int j / real_of_int steps)))) [0..steps]) = Tup (take 3 (P 1))"
    and "length (map (\<lambda>j. Tup (take 3 (P (real_of_int j / real_of_int steps)))) [0..steps]) = nat steps + 1"
proof -
  have ne: "[0..steps] \<noteq> []" using assms by simp
  have h: "hd [0..steps] = 0" using assms by (simp add: upto_rec1)
  have l: "last [0..steps] = steps" using assms by (simp add: upto_rec2)
  show "hd (map (\<lambda>j. Tup (take 3 (P (real_of_int j / real_of_int steps)))) [0..steps]) = Tup (take 3 (P 0))"
    using ne h by (simp add: hd_map)
  show "last (map (\<lambda>j. Tup (take 3 (P (real_of_int j / real_of_int steps)))) [0..steps]) = Tup (take 3 (P 1))"
    using ne l assms by (simp add: last_map)
  show "length (map (\<lambda>j. Tup (take 3 (P (real_of_int j / real_of_int steps)))) [0..steps]) = nat steps + 1"
    using assms by simp
qed


lemma sampled_shape:
  assumes "0 < steps"
      and "\<forall>t. 0 \<le> t \<and> t \<le> 1 \<longrightarrow> eval t = Inr (Tup (P t))"
  shows "ebind (sample_loop eval steps 0 []) (\<lambda>verts. Inr (PShape verts LINE_STRIP [])) =
           Inr (PShape (map (\<lambda>j. Tup (take 3 (P (real_of_int j / real_of_int steps)))) [0..steps])
                  LINE_STRIP [])"
  by (simp add: sample_loop_ok[OF assms])

text \<open>
  C7. Let the curve resolution \<open>steps\<close> be positive, and let the arguments be four
  values \<open>a, b, c, d\<close>, or eight scalars, of which consecutive pairs are the control
  points \<open>a, b, c, d\<close>, or twelve scalars, of which consecutive triples are; let the
  evaluator return a sequence \<open>P t\<close> for the control points \<open>a, b, c, d\<close> at every \<open>t\<close> in
  \<open>[0, 1]\<close>. Then \<^verbatim>\<open>bezier\<close> and \<^verbatim>\<open>curve\<close> each return and draw a \<open>LINE_STRIP\<close> shape with
  \<open>steps + 1\<close> vertices, the first three components of \<open>P (i / steps)\<close> for
  \<open>i = 0, ..., steps\<close>; the first is that of \<open>P 0\<close> and the last that of \<open>P 1\<close>. Every
  argument count other than 4, 8 and 12 gives the \<open>ValueError\<close> of the function and draws
  nothing.
\<close>

theorem bezier_curve_sampling:
  "(0 < bezier_resolution env
      \<and> (args = [a, b, c, d]
          \<or> args = [x1, y1, x2, y2, x3, y3, x4, y4]
             \<and> a = Tup [x1, y1] \<and> b = Tup [x2, y2] \<and> c = Tup [x3, y3] \<and> d = Tup [x4, y4]
          \<or> args = [x1, y1, z1, x2, y2, z2, x3, y3, z3, x4, y4, z4]
             \<and> a = Tup [x1, y1, z1] \<and> b = Tup [x2, y2, z2] \<and> c = Tup [x3, y3, z3]
             \<and> d = Tup [x4, y4, z4])
      \<and> (\<forall>t. 0 \<le> t \<and> t \<le> 1 \<longrightarrow> bezier_point env a b c d t = Inr (Tup (P t)))
     \<longrightarrow> (\<exists>sh. bezier env args st = (Inr sh, draw_shape sh st)
            \<and> shape_type sh = LINE_STRIP
            \<and> vertices sh =
                map (\<lambda>i. Tup (take 3 (P (real_of_int i / real_of_int (bezier_resolution env)))))
                  [0..bezier_resolution env]
            \<and> length (vertices sh) = nat (bezier_resolution env) + 1
            \<and> hd (vertices sh) = Tup (take 3 (P 0))
            \<and> last (vertices sh) = Tup (take 3 (P 1))))
   \<and> (0 < curve_resolution env
      \<and> (args = [a, b, c, d]
          \<or> args = [x1, y1, x2, y2, x3, y3, x4, y4]
             \<and> a = Tup [x1, y1] \<and> b = Tup [x2, y2] \<and> c = Tup [x3, y3] \<and> d = Tup [x4, y4]
          \<or> args = [x1, y1, z1, x2, y2, z2, x3, y3, z3, x4, y4, z4]
             \<and> a = Tup [x1, y1, z1] \<and> b = Tup [x2, y2, z2] \<and> c = Tup [x3, y3, z3]
             \<and> d = Tup [x4, y4, z4])
      \<and> (\<forall>t. 0 \<le> t \<and> t \<le> 1 \<longrightarrow> curve_point env a b c d t = Inr (Tup (P t)))
     \<longrightarrow> (\<exists>sh. curve env args st = (Inr sh, draw_shape sh st)
            \<and> shape_type sh = LINE_STRIP
            \<and> vertices sh =
                map (\<lambda>i. Tup (take 3 (P (real_of_int i / real_of_int (curve_resolution env)))))
                  [0..curve_resolution env]
            \<and> length (vertices sh) = nat (curve_resolution env) + 1
            \<and> hd (vertices sh) = Tup (take 3 (P 0))
            \<and> last (vertices sh) = Tup (take 3 (P 1))))
   \<and> (length args \<noteq> 4 \<and> length args \<noteq> 8 \<and> length args \<noteq> 12 \<longrightarrow>
        bezier env args st =
          (Inl (ValueError ''Unexpected number of arguments passed to bezier()''), st)
        \<and> curve env args st =
          (Inl (ValueError ''Unexpected number of arguments passed to curve()''), st))"
proof (intro conjI impI)
  assume h: "0 < bezier_resolution env
      \<and> (args = [a, b, c, d]
          \<or> args = [x1, y1, x2, y2, x3, y3, x4, y4]
             \<and> a = Tup [x1, y1] \<and> b = Tup [x2, y2] \<and> c = Tup [x3, y3] \<and> d = Tup [x4, y4]
          \<or> args = [x1, y1, z1, x2, y2, z2, x3, y3, z3, x4, y4, z4]
             \<and> a = Tup [x1, y1, z1] \<and> b = Tup [x2, y2, z2] \<and> c = Tup [x3, y3, z3]
             \<and> d = Tup [x4, y4, z4])
      \<and> (\<forall>t. 0 \<le> t \<and> t \<le> 1 \<longrightarrow> bezier_point env a b c d t = Inr (Tup (P t)))"
  let ?n = "bezier_resolution env"
  let ?vs = "map (\<lambda>i. Tup (take 3 (P (real_of_int i / real_of_int ?n)))) [0..?n]"
  have g: "control_points ''bezier'' args = Inr (a, b, c, d)"
    by (rule control_points_grouping) (use h in blast)
  have b: "bezier_body env args = Inr (PShape ?vs LINE_STRIP [])"
    using h g sampled_shape[of ?n "bezier_point env a b c d" P] by (simp add: bezier_body_def)
  have "bezier env args st = (Inr (PShape ?vs LINE_STRIP []), draw_shape (PShape ?vs LINE_STRIP []) st)"
    by (simp add: bezier_def draw_on_return_def b)
  then show "\<exists>sh. bezier env args st = (Inr sh, draw_shape sh st)
            \<and> shape_type sh = LINE_STRIP
            \<and> vertices sh =
                map (\<lambda>i. Tup (take 3 (P (real_of_int i / real_of_int (bezier_resolution env)))))
                  [0..bezier_resolution env]
            \<and> length (vertices sh) = nat (bezier_resolution env) + 1
            \<and> hd (vertices sh) = Tup (take 3 (P 0))
            \<and> last (vertices sh) = Tup (take 3 (P 1))"
    using h sampled_hd_last[of ?n P] by (intro exI[of _ "PShape ?vs LINE_STRIP []"]) simp
next
  assume h: "0 < curve_resolution env
      \<and> (args = [a, b, c, d]
          \<or> args = [x1, y1, x2, y2, x3, y3, x4, y4]
             \<and> a = Tup [x1, y1] \<and> b = Tup [x2, y2] \<and> c = Tup [x3, y3] \<and> d = Tup [x4, y4]
          \<or> args = [x1, y1, z1, x2, y2, z2, x3, y3, z3, x4, y4, z4]
             \<and> a = Tup [x1, y1, z1] \<and> b = Tup [x2, y2, z2] \<and> c = Tup [x3, y3, z3]
             \<and> d = Tup [x4, y4, z4])
      \<and> (\<forall>t. 0 \<le> t \<and> t \<le> 1 \<longrightarrow> curve_point env a b c d t = Inr (Tup (P t)))"
  let ?n = "curve_resolution env"
  let ?vs = "map (\<lambda>i. Tup (take 3 (P (real_of_int i / real_of_int ?n)))) [0..?n]"
  have g: "control_points ''curve'' args = Inr (a, b, c, d)"
    by (rule control_points_grouping) (use h in blast)
  have b: "curve_body env args = Inr (PShape ?vs LINE_STRIP [])"
    using h g sampled_shape[of ?n "curve_point env a b c d" P] by (simp add: curve_body_def)
  have "curve env args st = (Inr (PShape ?vs LINE_STRIP []), draw_shape (PShape ?vs LINE_STRIP []) st)"
    by (simp add: curve_def draw_on_return_def b)
  then show "\<exists>sh. curve env args st = (Inr sh, draw_shape sh st)
            \<and> shape_type sh = LINE_STRIP
            \<and> vertices sh =
                map (\<lambda>i. Tup (take 3 (P (real_of_int i / real_of_int (curve_resolution env)))))
                  [0..curve_resolution env]
            \<and> length (vertices sh) = nat (curve_resolution env) + 1
            \<and> hd (vertices sh) = Tup (take 3 (P 0))
            \<and> last (vertices sh) = Tup (take 3 (P 1))"
    using h sampled_hd_last[of ?n P] by (intro exI[of _ "PShape ?vs LINE_STRIP []"]) simp
next
  assume "length args \<noteq> 4 \<and> length args \<noteq> 8 \<and> length args \<noteq> 12"
  then show "bezier env args st =
          (Inl (ValueError ''Unexpected number of arguments passed to bezier()''), st)"
    by (simp add: bezier_def bezier_body_def control_points_def draw_on_return_def)
next
  assume "length args \<noteq> 4 \<and> length args \<noteq> 8 \<and> length args \<noteq> 12"
  then show "curve env args st =
          (Inl (ValueError ''Unexpected number of arguments passed to curve()''), st)"
    by (simp add: curve_def curve_body_def control_points_def draw_on_return_def)
qed

text \<open>
  \<^verbatim>\<open>bezier\<close> with eight and with twelve scalars, \<^verbatim>\<open>curve\<close> with four 3D points and with twelve
  scalars, twenty steps each: 21 vertices from the start anchor to the stop anchor (for
  the Catmull-Rom curve, from the second to the third point); five scalars raise.
\<close>

theorem bezier_curve_sampling_witness:
  "(\<exists>sh. bezier example_env [Num 0, Num 0, Num 1, Num 2, Num 3, Num 2, Num 4, Num 0] initial_state =
            (Inr sh, draw_shape sh initial_state)
         \<and> shape_type sh = LINE_STRIP \<and> length (vertices sh) = 21
         \<and> hd (vertices sh) = Tup [Num 0, Num 0, Num 0]
         \<and> last (vertices sh) = Tup [Num 4, Num 0, Num 0])
   \<and> (\<exists>sh. bezier example_env [Num 0, Num 0, Num 0, Num 1, Num 2, Num 1, Num 3, Num 2, Num 1, Num 4, Num 0, Num 2] initial_state =
            (Inr sh, draw_shape sh initial_state)
         \<and> shape_type sh = LINE_STRIP \<and> length (vertices sh) = 21
         \<and> hd (vertices sh) = Tup [Num 0, Num 0, Num 0]
         \<and> last (vertices sh) = Tup [Num 4, Num 0, Num 2])
   \<and> (\<exists>sh. curve example_env [Tup [Num 0, Num 0, Num 0], Tup [Num 1, Num 1, Num 1], Tup [Num 2, Num 1, Num 2], Tup [Num 3, Num 0, Num 3]] initial_state =
            (Inr sh, draw_shape sh initial_state)
         \<and> shape_type sh = LINE_STRIP \<and> length (vertices sh) = 21
         \<and> hd (vertices sh) = Tup [Num 1, Num 1, Num 1]
         \<and> last (vertices sh) = Tup [Num 2, Num 1, Num 2])
   \<and> (\<exists>sh. curve example_env [Num 0, Num 0, Num 0, Num 1, Num 1, Num 1, Num 2, Num 1, Num 2, Num 3, Num 0, Num 3] initial_state =
            (Inr sh, draw_shape sh initial_state)
         \<and> shape_type sh = LINE_STRIP \<and> length (vertices sh) = 21
         \<and> hd (vertices sh) = Tup [Num 1, Num 1, Num 1]
         \<and> last (vertices sh) = Tup [Num 2, Num 1, Num 2])
   \<and> bezier example_env [Num 0, Num 0, Num 1, Num 2, Num 3] initial_state =
        (Inl (ValueError ''Unexpected number of arguments passed to bezier()''), initial_state)"
proof -
  have r: "bezier_resolution example_env = 20" "curve_resolution example_env = 20"
    by (simp_all add: example_env_def)
  have h0: "0 < bezier_resolution example_env
      \<and> ([Num 0, Num 0, Num 1, Num 2, Num 3, Num 2, Num 4, Num 0] = [Tup [Num 0, Num 0], Tup [Num 1, Num 2], Tup [Num 3, Num 2], Tup [Num 4, Num 0]]
          \<or> [Num 0, Num 0, Num 1, Num 2, Num 3, Num 2, Num 4, Num 0] = [Num 0, Num 0, Num 1, Num 2, Num 3, Num 2, Num 4, Num 0]
             \<and> Tup [Num 0, Num 0] = Tup [Num 0, Num 0] \<and> Tup [Num 1, Num 2] = Tup [Num 1, Num 2] \<and> Tup [Num 3, Num 2] = Tup [Num 3, Num 2] \<and> Tup [Num 4, Num 0] = Tup [Num 4, Num 0]
          \<or> [Num 0, Num 0, Num 1, Num 2, Num 3, Num 2, Num 4, Num 0] = [Num 0, Num 0, Num 0, Num 1, Num 2, Num 0, Num 3, Num 2, Num 0, Num 4, Num 0, Num 0]
             \<and> Tup [Num 0, Num 0] = Tup [Num 0, Num 0, Num 0] \<and> Tup [Num 1, Num 2] = Tup [Num 1, Num 2, Num 0] \<and> Tup [Num 3, Num 2] = Tup [Num 3, Num 2, Num 0]
             \<and> Tup [Num 4, Num 0] = Tup [Num 4, Num 0, Num 0])
      \<and> (\<forall>t. 0 \<le> t \<and> t \<le> 1 \<longrightarrow>
            bezier_point example_env (Tup [Num 0, Num 0]) (Tup [Num 1, Num 2]) (Tup [Num 3, Num 2]) (Tup [Num 4, Num 0]) t = Inr (Tup ((\<lambda>t. [Num (bezier_blend 0 1 3 4 t), Num (bezier_blend 0 2 2 0 t), Num (bezier_blend 0 0 0 0 t)]) t)))"
    by (simp add: example_env_def blend_point_def)
  note tb8 = bezier_curve_sampling [where env = example_env and st = initial_state and P = "\<lambda>t. [Num (bezier_blend 0 1 3 4 t), Num (bezier_blend 0 2 2 0 t), Num (bezier_blend 0 0 0 0 t)]"
      and args = "[Num 0, Num 0, Num 1, Num 2, Num 3, Num 2, Num 4, Num 0]"
      and a = "Tup [Num 0, Num 0]" and b = "Tup [Num 1, Num 2]" and c = "Tup [Num 3, Num 2]" and d = "Tup [Num 4, Num 0]"
      and ?x1.0 = "Num 0" and ?y1.0 = "Num 0" and ?z1.0 = "Num 0" and ?x2.0 = "Num 1" and ?y2.0 = "Num 2" and ?z2.0 = "Num 0" and ?x3.0 = "Num 3" and ?y3.0 = "Num 2" and ?z3.0 = "Num 0" and ?x4.0 = "Num 4" and ?y4.0 = "Num 0" and ?z4.0 = "Num 0"]
  have c0: "\<exists>sh. bezier example_env [Num 0, Num 0, Num 1, Num 2, Num 3, Num 2, Num 4, Num 0] initial_state =
            (Inr sh, draw_shape sh initial_state)
         \<and> shape_type sh = LINE_STRIP \<and> length (vertices sh) = 21
         \<and> hd (vertices sh) = Tup [Num 0, Num 0, Num 0]
         \<and> last (vertices sh) = Tup [Num 4, Num 0, Num 0]"
  proof -
    obtain sh where sh: "bezier example_env [Num 0, Num 0, Num 1, Num 2, Num 3, Num 2, Num 4, Num 0] initial_state = (Inr sh, draw_shape sh initial_state)"
        "shape_type sh = LINE_STRIP"
        "length (vertices sh) = nat (bezier_resolution example_env) + 1"
        "hd (vertices sh) = Tup (take 3 ((\<lambda>t. [Num (bezier_blend 0 1 3 4 t), Num (bezier_blend 0 2 2 0 t), Num (bezier_blend 0 0 0 0 t)]) 0))" "last (vertices sh) = Tup (take 3 ((\<lambda>t. [Num (bezier_blend 0 1 3 4 t), Num (bezier_blend 0 2 2 0 t), Num (bezier_blend 0 0 0 0 t)]) 1))"
      using mp[OF tb8[THEN conjunct1] h0] by blast
    show ?thesis using sh r by (intro exI[of _ sh]) (simp add: bezier_blend_def)
  qed
  have h1: "0 < bezier_resolution example_env
      \<and> ([Num 0, Num 0, Num 0, Num 1, Num 2, Num 1, Num 3, Num 2, Num 1, Num 4, Num 0, Num 2] = [Tup [Num 0, Num 0, Num 0], Tup [Num 1, Num 2, Num 1], Tup [Num 3, Num 2, Num 1], Tup [Num 4, Num 0, Num 2]]
          \<or> [Num 0, Num 0, Num 0, Num 1, Num 2, Num 1, Num 3, Num 2, Num 1, Num 4, Num 0, Num 2] = [Num 0, Num 0, Num 1, Num 2, Num 3, Num 2, Num 4, Num 0]
             \<and> Tup [Num 0, Num 0, Num 0] = Tup [Num 0, Num 0] \<and> Tup [Num 1, Num 2, Num 1] = Tup [Num 1, Num 2] \<and> Tup [Num 3, Num 2, Num 1] = Tup [Num 3, Num 2] \<and> Tup [Num 4, Num 0, Num 2] = Tup [Num 4, Num 0]
          \<or> [Num 0, Num 0, Num 0, Num 1, Num 2, Num 1, Num 3, Num 2, Num 1, Num 4, Num 0, Num 2] = [Num 0, Num 0, Num 0, Num 1, Num 2, Num 1, Num 3, Num 2, Num 1, Num 4, Num 0, Num 2]
             \<and> Tup [Num 0, Num 0, Num 0] = Tup [Num 0, Num 0, Num 0] \<and> Tup [Num 1, Num 2, Num 1] = Tup [Num 1, Num 2, Num 1] \<and> Tup [Num 3, Num 2, Num 1] = Tup [Num 3, Num 2, Num 1]
             \<and> Tup [Num 4, Num 0, Num 2] = Tup [Num 4, Num 0, Num 2])
      \<and> (\<forall>t. 0 \<le> t \<and> t \<le> 1 \<longrightarrow>
            bezier_point example_env (Tup [Num 0, Num 0, Num 0]) (Tup [Num 1, Num 2, Num 1]) (Tup [Num 3, Num 2, Num 1]) (Tup [Num 4, Num 0, Num 2]) t = Inr (Tup ((\<lambda>t. [Num (bezier_blend 0 1 3 4 t), Num (bezier_blend 0 2 2 0 t), Num (bezier_blend 0 1 1 2 t)]) t)))"
    by (simp add: example_env_def blend_point_def)
  note tb12 = bezier_curve_sampling [where env = example_env and st = initial_state and P = "\<lambda>t. [Num (bezier_blend 0 1 3 4 t), Num (bezier_blend 0 2 2 0 t), Num (bezier_blend 0 1 1 2 t)]"
      and args = "[Num 0, Num 0, Num 0, Num 1, Num 2, Num 1, Num 3, Num 2, Num 1, Num 4, Num 0, Num 2]"
      and a = "Tup [Num 0, Num 0, Num 0]" and b = "Tup [Num 1, Num 2, Num 1]" and c = "Tup [Num 3, Num 2, Num 1]" and d = "Tup [Num 4, Num 0, Num 2]"
      and ?x1.0 = "Num 0" and ?y1.0 = "Num 0" and ?z1.0 = "Num 0" and ?x2.0 = "Num 1" and ?y2.0 = "Num 2" and ?z2.0 = "Num 1" and ?x3.0 = "Num 3" and ?y3.0 = "Num 2" and ?z3.0 = "Num 1" and ?x4.0 = "Num 4" and ?y4.0 = "Num 0" and ?z4.0 = "Num 2"]
  have c1: "\<exists>sh. bezier example_env [Num 0, Num 0, Num 0, Num 1, Num 2, Num 1, Num 3, Num 2, Num 1, Num 4, Num 0, Num 2] initial_state =
            (Inr sh, draw_shape sh initial_state)
         \<and> shape_type sh = LINE_STRIP \<and> length (vertices sh) = 21
         \<and> hd (vertices sh) = Tup [Num 0, Num 0, Num 0]
         \<and> last (vertices sh) = Tup [Num 4, Num 0, Num 2]"
  proof -
    obtain sh where sh: "bezier example_env [Num 0, Num 0, Num 0, Num 1, Num 2, Num 1, Num 3, Num 2, Num 1, Num 4, Num 0, Num 2] initial_state = (Inr sh, draw_shape sh initial_state)"
        "shape_type sh = LINE_STRIP"
        "length (vertices sh) = nat (bezier_resolution example_env) + 1"
        "hd (vertices sh) = Tup (take 3 ((\<lambda>t. [Num (bezier_blend 0 1 3 4 t), Num (bezier_blend 0 2 2 0 t), Num (bezier_blend 0 1 1 2 t)]) 0))" "last (vertices sh) = Tup (take 3 ((\<lambda>t. [Num (bezier_blend 0 1 3 4 t), Num (bezier_blend 0 2 2 0 t), Num (bezier_blend 0 1 1 2 t)]) 1))"
      using mp[OF tb12[THEN conjunct1] h1] by blast
    show ?thesis using sh r by (intro exI[of _ sh]) (simp add: bezier_blend_def)
  qed
  have h2: "0 < curve_resolution example_env
      \<and> ([Tup [Num 0, Num 0, Num 0], Tup [Num 1, Num 1, Num 1], Tup [Num 2, Num 1, Num 2], Tup [Num 3, Num 0, Num 3]] = [Tup [Num 0, Num 0, Num 0], Tup [Num 1, Num 1, Num 1], Tup [Num 2, Num 1, Num 2], Tup [Num 3, Num 0, Num 3]]
          \<or> [Tup [Num 0, Num 0, Num 0], Tup [Num 1, Num 1, Num 1], Tup [Num 2, Num 1, Num 2], Tup [Num 3, Num 0, Num 3]] = [Num 0, Num 0, Num 0, Num 0, Num 0, Num 0, Num 0, Num 0]
             \<and> Tup [Num 0, Num 0, Num 0] = Tup [Num 0, Num 0] \<and> Tup [Num 1, Num 1, Num 1] = Tup [Num 0, Num 0] \<and> Tup [Num 2, Num 1, Num 2] = Tup [Num 0, Num 0] \<and> Tup [Num 3, Num 0, Num 3] = Tup [Num 0, Num 0]
          \<or> [Tup [Num 0, Num 0, Num 0], Tup [Num 1, Num 1, Num 1], Tup [Num 2, Num 1, Num 2], Tup [Num 3, Num 0, Num 3]] = [Num 0, Num 0, Num 0, Num 0, Num 0, Num 0, Num 0, Num 0, Num 0, Num 0, Num 0, Num 0]
             \<and> Tup [Num 0, Num 0, Num 0] = Tup [Num 0, Num 0, Num 0] \<and> Tup [Num 1, Num 1, Num 1] = Tup [Num 0, Num 0, Num 0] \<and> Tup [Num 2, Num 1, Num 2] = Tup [Num 0, Num 0, Num 0]
             \<and> Tup [Num 3, Num 0, Num 3] = Tup [Num 0, Num 0, Num 0])
      \<and> (\<forall>t. 0 \<le> t \<and> t \<le> 1 \<longrightarrow>
            curve_point example_env (Tup [Num 0, Num 0, Num 0]) (Tup [Num 1, Num 1, Num 1]) (Tup [Num 2, Num 1, Num 2]) (Tup [Num 3, Num 0, Num 3]) t = Inr (Tup ((\<lambda>t. [Num (catmull_rom_blend 0 1 2 3 t), Num (catmull_rom_blend 0 1 1 0 t), Num (catmull_rom_blend 0 1 2 3 t)]) t)))"
    by (simp add: example_env_def blend_point_def)
  note tc4 = bezier_curve_sampling [where env = example_env and st = initial_state and P = "\<lambda>t. [Num (catmull_rom_blend 0 1 2 3 t), Num (catmull_rom_blend 0 1 1 0 t), Num (catmull_rom_blend 0 1 2 3 t)]"
      and args = "[Tup [Num 0, Num 0, Num 0], Tup [Num 1, Num 1, Num 1], Tup [Num 2, Num 1, Num 2], Tup [Num 3, Num 0, Num 3]]"
      and a = "Tup [Num 0, Num 0, Num 0]" and b = "Tup [Num 1, Num 1, Num 1]" and c = "Tup [Num 2, Num 1, Num 2]" and d = "Tup [Num 3, Num 0, Num 3]"
      and ?x1.0 = "Num 0" and ?y1.0 = "Num 0" and ?z1.0 = "Num 0" and ?x2.0 = "Num 0" and ?y2.0 = "Num 0" and ?z2.0 = "Num 0" and ?x3.0 = "Num 0" and ?y3.0 = "Num 0" and ?z3.0 = "Num 0" and ?x4.0 = "Num 0" and ?y4.0 = "Num 0" and ?z4.0 = "Num 0"]
  have c2: "\<exists>sh. curve example_env [Tup [Num 0, Num 0, Num 0], Tup [Num 1, Num 1, Num 1], Tup [Num 2, Num 1, Num 2], Tup [Num 3, Num 0, Num 3]] initial_state =
            (Inr sh, draw_shape sh initial_state)
         \<and> shape_type sh = LINE_STRIP \<and> length (vertices sh) = 21
         \<and> hd (vertices sh) = Tup [Num 1, Num 1, Num 1]
         \<and> last (vertices sh) = Tup [Num 2, Num 1, Num 2]"
  proof -
    obtain sh where sh: "curve example_env [Tup [Num 0, Num 0, Num 0], Tup [Num 1, Num 1, Num 1], Tup [Num 2, Num 1, Num 2], Tup [Num 3, Num 0, Num 3]] initial_state = (Inr sh, draw_shape sh initial_state)"
        "shape_type sh = LINE_STRIP"
        "length (vertices sh) = nat (curve_resolution example_env) + 1"
        "hd (vertices sh) = Tup (take 3 ((\<lambda>t. [Num (catmull_rom_blend 0 1 2 3 t), Num (catmull_rom_blend 0 1 1 0 t), Num (catmull_rom_blend 0 1 2 3 t)]) 0))" "last (vertices sh) = Tup (take 3 ((\<lambda>t. [Num (catmull_rom_blend 0 1 2 3 t), Num (catmull_rom_blend 0 1 1 0 t), Num (catmull_rom_blend 0 1 2 3 t)]) 1))"
      using mp[OF tc4[THEN conjunct2, THEN conjunct1] h2] by blast
    show ?thesis using sh r by (intro exI[of _ sh]) (simp add: catmull_rom_blend_def)
  qed
  have h3: "0 < curve_resolution example_env
      \<and> ([Num 0, Num 0, Num 0, Num 1, Num 1, Num 1, Num 2, Num 1, Num 2, Num 3, Num 0, Num 3] = [Tup [Num 0, Num 0, Num 0], Tup [Num 1, Num 1, Num 1], Tup [Num 2, Num 1, Num 2], Tup [Num 3, Num 0, Num 3]]
          \<or> [Num 0, Num 0, Num 0, Num 1, Num 1, Num 1, Num 2, Num 1, Num 2, Num 3, Num 0, Num 3] = [Num 0, Num 0, Num 1, Num 1, Num 2, Num 1, Num 3, Num 0]
             \<and> Tup [Num 0, Num 0, Num 0] = Tup [Num 0, Num 0] \<and> Tup [Num 1, Num 1, Num 1] = Tup [Num 1, Num 1] \<and> Tup [Num 2, Num 1, Num 2] = Tup [Num 2, Num 1] \<and> Tup [Num 3, Num 0, Num 3] = Tup [Num 3, Num 0]
          \<or> [Num 0, Num 0, Num 0, Num 1, Num 1, Num 1, Num 2, Num 1, Num 2, Num 3, Num 0, Num 3] = [Num 0, Num 0, Num 0, Num 1, Num 1, Num 1, Num 2, Num 1, Num 2, Num 3, Num 0, Num 3]
             \<and> Tup [Num 0, Num 0, Num 0] = Tup [Num 0, Num 0, Num 0] \<and> Tup [Num 1, Num 1, Num 1] = Tup [Num 1, Num 1, Num 1] \<and> Tup [Num 2, Num 1, Num 2] = Tup [Num 2, Num 1, Num 2]
             \<and> Tup [Num 3, Num 0, Num 3] = Tup [Num 3, Num 0, Num 3])
      \<and> (\<forall>t. 0 \<le> t \<and> t \<le> 1 \<longrightarrow>
            curve_point example_env (Tup [Num 0, Num 0, Num 0]) (Tup [Num 1, Num 1, Num 1]) (Tup [Num 2, Num 1, Num 2]) (Tup [Num 3, Num 0, Num 3]) t = Inr (Tup ((\<lambda>t. [Num (catmull_rom_blend 0 1 2 3 t), Num (catmull_rom_blend 0 1 1 0 t), Num (catmull_rom_blend 0 1 2 3 t)]) t)))"
    by (simp add: example_env_def blend_point_def)
  note tc12 = bezier_curve_sampling [where env = example_env and st = initial_state and P = "\<lambda>t. [Num (catmull_rom_blend 0 1 2 3 t), Num (catmull_rom_blend 0 1 1 0 t), Num (catmull_rom_blend 0 1 2 3 t)]"
      and args = "[Num 0, Num 0, Num 0, Num 1, Num 1, Num 1, Num 2, Num 1, Num 2, Num 3, Num 0, Num 3]"
      and a = "Tup [Num 0, Num 0, Num 0]" and b = "Tup [Num 1, Num 1, Num 1]" and c = "Tup [Num 2, Num 1, Num 2]" and d = "Tup [Num 3, Num 0, Num 3]"
      and ?x1.0 = "Num 0" and ?y1.0 = "Num 0" and ?z1.0 = "Num 0" and ?x2.0 = "Num 1" and ?y2.0 = "Num 1" and ?z2.0 = "Num 1" and ?x3.0 = "Num 2" and ?y3.0 = "Num 1" and ?z3.0 = "Num 2" and ?x4.0 = "Num 3" and ?y4.0 = "Num 0" and ?z4.0 = "Num 3"]
  have c3: "\<exists>sh. curve example_env [Num 0, Num 0, Num 0, Num 1, Num 1, Num 1, Num 2, Num 1, Num 2, Num 3, Num 0, Num 3] initial_state =
            (Inr sh, draw_shape sh initial_state)
         \<and> shape_type sh = LINE_STRIP \<and> length (vertices sh) = 21
         \<and> hd (vertices sh) = Tup [Num 1, Num 1, Num 1]
         \<and> last (vertices sh) = Tup [Num 2, Num 1, Num 2]"
  proof -
    obtain sh where sh: "curve example_env [Num 0, Num 0, Num 0, Num 1, Num 1, Num 1, Num 2, Num 1, Num 2, Num 3, Num 0, Num 3] initial_state = (Inr sh, draw_shape sh initial_state)"
        "shape_type sh = LINE_STRIP"
        "length (vertices sh) = nat (curve_resolution example_env) + 1"
        "hd (vertices sh) = Tup (take 3 ((\<lambda>t. [Num (catmull_rom_blend 0 1 2 3 t), Num (catmull_rom_blend 0 1 1 0 t), Num (catmull_rom_blend 0 1 2 3 t)]) 0))" "last (vertices sh) = Tup (take 3 ((\<lambda>t. [Num (catmull_rom_blend 0 1 2 3 t), Num (catmull_rom_blend 0 1 1 0 t), Num (catmull_rom_blend 0 1 2 3 t)]) 1))"
      using mp[OF tc12[THEN conjunct2, THEN conjunct1] h3] by blast
    show ?thesis using sh r by (intro exI[of _ sh]) (simp add: catmull_rom_blend_def)
  qed
  have e: "length [Num 0, Num 0, Num 1, Num 2, Num 3] \<noteq> 4 \<and> length [Num 0, Num 0, Num 1, Num 2, Num 3] \<noteq> 8
         \<and> length [Num 0, Num 0, Num 1, Num 2, Num 3] \<noteq> 12"
    by simp
  note te = bezier_curve_sampling [where env = example_env and st = initial_state and P = "\<lambda>t. [Num (bezier_blend 0 1 3 4 t), Num (bezier_blend 0 2 2 0 t), Num (bezier_blend 0 0 0 0 t)]"
      and args = "[Num 0, Num 0, Num 1, Num 2, Num 3]"
      and a = "Tup [Num 0, Num 0]" and b = "Tup [Num 1, Num 2]" and c = "Tup [Num 3, Num 2]" and d = "Tup [Num 4, Num 0]"
      and ?x1.0 = "Num 0" and ?y1.0 = "Num 0" and ?z1.0 = "Num 0" and ?x2.0 = "Num 0" and ?y2.0 = "Num 0" and ?z2.0 = "Num 0" and ?x3.0 = "Num 0" and ?y3.0 = "Num 0" and ?z3.0 = "Num 0" and ?x4.0 = "Num 0" and ?y4.0 = "Num 0" and ?z4.0 = "Num 0"]
  have err: "bezier example_env [Num 0, Num 0, Num 1, Num 2, Num 3] initial_state =
        (Inl (ValueError ''Unexpected number of arguments passed to bezier()''), initial_state)"
    by (rule conjunct1[OF mp[OF te[THEN conjunct2, THEN conjunct2] e]])
  show ?thesis by (intro conjI c0 c1 c2 c3 err)
qed

section \<open>The mode setters\<close>

lemma fst_draw_on_return: "fst (draw_on_return f st) = f st"
  by (simp add: draw_on_return_def split: sum.splits)

lemma fst_quad: "fst (quad ps st) = quad_body ps"
  by (simp add: quad_def fst_draw_on_return)

lemma fst_rect_explicit:
  "fst (rect args (Some m') st) = fst (rect args (Some m') st')"
  by (simp add: rect_def Let_def fst_quad split: sum.splits)

lemma fst_square_explicit:
  "fst (square args (Some m') st) = fst (square args (Some m') st')"
  using fst_rect_explicit by (simp add: square_def Let_def)

lemma fst_arc_explicit:
  "fst (arc env args cmode (Some m') st) = fst (arc env args cmode (Some m') st')"
  by (simp add: arc_def fst_draw_on_return arc_body_def Let_def)

lemma fst_ellipse_explicit:
  "fst (ellipse env args (Some m') st) = fst (ellipse env args (Some m') st')"
proof (cases "length args \<noteq> 3 \<and> length args \<noteq> 4")
  case True
  then show ?thesis by (simp add: ellipse_def)
next
  case False
  define coordinate where "coordinate = (if length args = 3 then args ! 0 else Tup (take 2 args))"
  define rest where "rest = (if length args = 3 then drop 1 args else drop 2 args)"
  define r where "r =
    (if Some m' = Some ''CORNERS'' then
             ebind (Point_of coordinate) (\<lambda>(x, y, z).
             ebind (unpack1 rest) (\<lambda>corner_2.
             ebind (Point_of corner_2) (\<lambda>(x2, y2, z2).
             ebind (py_sub x2 x) (\<lambda>width.
             ebind (py_sub y2 y) (\<lambda>height.
               Inr (width, height, Some ''CORNER''))))))
           else ebind (unpack2 rest) (\<lambda>(width, height). Inr (width, height, Some m')))"
  have n: "\<not> (length args \<noteq> 3 \<and> length args \<noteq> 4)" using False by simp
  have e: "\<And>s. ellipse env args (Some m') s =
     (case r of Inl e \<Rightarrow> (Inl e, s)
      | Inr (width, height, mode) \<Rightarrow>
          arc env [coordinate, width, height, Num 0, Num (pi * 2)] (Some ''CHORD'') mode s)"
    unfolding ellipse_def Let_def if_not_P[OF n] coordinate_def[symmetric] rest_def[symmetric]
      r_def option.case ..
  show ?thesis
  proof (cases r)
    case (Inl err)
    then show ?thesis by (simp add: e)
  next
    case (Inr t)
    obtain w h md where t: "t = (w, h, md)" by (cases t)
    have "\<exists>s. md = Some s"
      using Inr unfolding t r_def
      by (auto simp: ebind_eq_Inr_iff split: if_splits)
    then obtain s where md: "md = Some s" by blast
    show ?thesis using fst_arc_explicit by (simp add: e Inr t md)
  qed
qed

lemma fst_circle_explicit:
  "fst (circle env args (Some m') st) = fst (circle env args (Some m') st')"
  using fst_ellipse_explicit by (simp add: circle_def Let_def)


lemma unpack2_two: "length rest = 2 \<Longrightarrow> unpack2 rest = Inr (rest ! 0, rest ! 1)"
  by (auto simp: unpack2_def split: list.splits)

lemma effective_mode: "(case m of None \<Rightarrow> m | Some x \<Rightarrow> Some x) = m"
  by (cases m) simp_all

lemma rect_unknown_mode:
  assumes "length args = 3 \<or> length args = 4"
      and "(case mode of None \<Rightarrow> rect_mode_var st | Some x \<Rightarrow> Some x) = e"
      and "e \<noteq> Some ''CORNER''" "e \<noteq> Some ''CORNERS''" "e \<noteq> Some ''CENTER''" "e \<noteq> Some ''RADIUS''"
  shows "rect args mode st =
           (Inl (ValueError (''Unknown rect mode '' @ (case e of None \<Rightarrow> ''None'' | Some s \<Rightarrow> s))), st)"
proof -
  have n: "\<not> (length args \<noteq> 4 \<and> length args \<noteq> 3)" using assms(1) by auto
  have r: "\<And>c r. rect_normalize e c r =
             Inl (ValueError (''Unknown rect mode '' @ (case e of None \<Rightarrow> ''None'' | Some s \<Rightarrow> s)))"
    using assms(3-6) by (simp add: rect_normalize_def)
  show ?thesis
    unfolding rect_def Let_def if_not_P[OF n] assms(2) r by simp
qed

lemma square_unknown_mode:
  assumes "length args = 2 \<or> length args = 3"
      and "(case mode of None \<Rightarrow> rect_mode_var st | Some x \<Rightarrow> Some x) = e"
      and "(case e of None \<Rightarrow> rect_mode_var st | Some x \<Rightarrow> Some x) = e"
      and "e \<noteq> Some ''CORNER''" "e \<noteq> Some ''CORNERS''" "e \<noteq> Some ''CENTER''" "e \<noteq> Some ''RADIUS''"
  shows "square args mode st =
           (Inl (ValueError (''Unknown rect mode '' @ (case e of None \<Rightarrow> ''None'' | Some s \<Rightarrow> s))), st)"
proof -
  have n: "\<not> (length args \<noteq> 2 \<and> length args \<noteq> 3)" using assms(1) by auto
  have r: "\<And>c s. rect [c, s, s] e st =
      (Inl (ValueError (''Unknown rect mode '' @ (case e of None \<Rightarrow> ''None'' | Some s \<Rightarrow> s))), st)"
    by (rule rect_unknown_mode[OF _ assms(3-7)]) simp
  show ?thesis
    unfolding square_def Let_def if_not_P[OF n] assms(2) r using assms(5) by simp
qed

lemma arc_unknown_mode:
  assumes "length args = 5 \<or> length args = 6"
      and "(case em of None \<Rightarrow> ellipse_mode_var st | Some x \<Rightarrow> Some x) = e"
      and "e \<noteq> Some ''CORNER''" "e \<noteq> Some ''CENTER''" "e \<noteq> Some ''RADIUS''"
  shows "arc env args cmode em st =
           (Inl (ValueError (''Unknown arc mode '' @ (case e of None \<Rightarrow> ''None'' | Some s \<Rightarrow> s))), st)"
proof -
  have n: "\<not> (length args \<noteq> 5 \<and> length args \<noteq> 6)" using assms(1) by auto
  have "arc_body env args cmode em st =
          Inl (ValueError (''Unknown arc mode '' @ (case e of None \<Rightarrow> ''None'' | Some s \<Rightarrow> s)))"
    unfolding arc_body_def Let_def if_not_P[OF n] assms(2) using assms(3-5) by simp
  then show ?thesis by (simp add: arc_def draw_on_return_def)
qed

lemma ellipse_unknown_mode:
  assumes "length args = 3 \<or> length args = 4"
      and "(case mode of None \<Rightarrow> ellipse_mode_var st | Some x \<Rightarrow> Some x) = e"
      and "(case e of None \<Rightarrow> ellipse_mode_var st | Some x \<Rightarrow> Some x) = e"
      and "e \<noteq> Some ''CORNER''" "e \<noteq> Some ''CORNERS''" "e \<noteq> Some ''CENTER''" "e \<noteq> Some ''RADIUS''"
  shows "ellipse env args mode st =
           (Inl (ValueError (''Unknown arc mode '' @ (case e of None \<Rightarrow> ''None'' | Some s \<Rightarrow> s))), st)"
proof -
  have n: "\<not> (length args \<noteq> 3 \<and> length args \<noteq> 4)" using assms(1) by auto
  define rest where "rest = (if length args = 3 then drop 1 args else drop 2 args)"
  have "length rest = 2" using assms(1) by (auto simp: rest_def)
  then have u: "unpack2 rest = Inr (rest ! 0, rest ! 1)" by (rule unpack2_two)
  have a: "\<And>c w h. arc env [c, w, h, Num 0, Num (pi * 2)] (Some ''CHORD'') e st =
      (Inl (ValueError (''Unknown arc mode '' @ (case e of None \<Rightarrow> ''None'' | Some s \<Rightarrow> s))), st)"
    by (rule arc_unknown_mode[OF _ assms(3,4,6,7)]) simp
  show ?thesis
    unfolding ellipse_def Let_def if_not_P[OF n] assms(2) rest_def[symmetric]
    using assms(5) by (simp add: u a)
qed

lemma circle_unknown_mode:
  assumes "length args = 2 \<or> length args = 3"
      and "(case mode of None \<Rightarrow> ellipse_mode_var st | Some x \<Rightarrow> Some x) = e"
      and "(case e of None \<Rightarrow> ellipse_mode_var st | Some x \<Rightarrow> Some x) = e"
      and "e \<noteq> Some ''CORNER''" "e \<noteq> Some ''CORNERS''" "e \<noteq> Some ''CENTER''" "e \<noteq> Some ''RADIUS''"
  shows "circle env args mode st =
           (Inl (ValueError (''Unknown arc mode '' @ (case e of None \<Rightarrow> ''None'' | Some s \<Rightarrow> s))), st)"
proof -
  have n: "\<not> (length args \<noteq> 2 \<and> length args \<noteq> 3)" using assms(1) by auto
  have r: "\<And>c s. ellipse env [c, s, s] e st =
      (Inl (ValueError (''Unknown arc mode '' @ (case e of None \<Rightarrow> ''None'' | Some s \<Rightarrow> s))), st)"
    by (rule ellipse_unknown_mode[OF _ assms(3) assms(3-7)]) simp
  show ?thesis
    unfolding circle_def Let_def if_not_P[OF n] assms(2) r using assms(5) by simp
qed

text \<open>
  C10. \<^verbatim>\<open>rect_mode\<close> and \<^verbatim>\<open>ellipse_mode\<close> store their argument, whatever it is, and change
  nothing else. When the stored value is none of \<open>CORNER\<close>, \<open>CORNERS\<close>, \<open>CENTER\<close>, \<open>RADIUS\<close>,
  a later call of \<^verbatim>\<open>rect\<close>, \<^verbatim>\<open>square\<close>, \<^verbatim>\<open>ellipse\<close>, \<^verbatim>\<open>circle\<close> or \<^verbatim>\<open>arc\<close> with a supported
  argument count and no explicit mode returns the \<open>ValueError\<close> for the unknown mode; a
  call with an explicit mode returns what it returns without the stored value.
\<close>

theorem mode_setters_store_unvalidated:
  "rect_mode_var (rect_mode m st) = m
   \<and> ellipse_mode_var (rect_mode m st) = ellipse_mode_var st
   \<and> rendered (rect_mode m st) = rendered st
   \<and> ellipse_mode_var (ellipse_mode m st) = m
   \<and> rect_mode_var (ellipse_mode m st) = rect_mode_var st
   \<and> rendered (ellipse_mode m st) = rendered st
   \<and> (m \<noteq> Some ''CORNER'' \<and> m \<noteq> Some ''CORNERS'' \<and> m \<noteq> Some ''CENTER'' \<and> m \<noteq> Some ''RADIUS''
        \<longrightarrow>
        ((length args = 3 \<or> length args = 4) \<longrightarrow>
           rect args None (rect_mode m st) =
             (Inl (ValueError (''Unknown rect mode '' @ (case m of None \<Rightarrow> ''None'' | Some s \<Rightarrow> s))),
              rect_mode m st)
           \<and> ellipse env args None (ellipse_mode m st) =
             (Inl (ValueError (''Unknown arc mode '' @ (case m of None \<Rightarrow> ''None'' | Some s \<Rightarrow> s))),
              ellipse_mode m st))
        \<and> ((length args = 2 \<or> length args = 3) \<longrightarrow>
           square args None (rect_mode m st) =
             (Inl (ValueError (''Unknown rect mode '' @ (case m of None \<Rightarrow> ''None'' | Some s \<Rightarrow> s))),
              rect_mode m st)
           \<and> circle env args None (ellipse_mode m st) =
             (Inl (ValueError (''Unknown arc mode '' @ (case m of None \<Rightarrow> ''None'' | Some s \<Rightarrow> s))),
              ellipse_mode m st))
        \<and> ((length args = 5 \<or> length args = 6) \<longrightarrow>
           arc env args cmode None (ellipse_mode m st) =
             (Inl (ValueError (''Unknown arc mode '' @ (case m of None \<Rightarrow> ''None'' | Some s \<Rightarrow> s))),
              ellipse_mode m st)))
   \<and> fst (rect args (Some m') (rect_mode m st)) = fst (rect args (Some m') st)
   \<and> fst (square args (Some m') (rect_mode m st)) = fst (square args (Some m') st)
   \<and> fst (ellipse env args (Some m') (ellipse_mode m st)) = fst (ellipse env args (Some m') st)
   \<and> fst (circle env args (Some m') (ellipse_mode m st)) = fst (circle env args (Some m') st)
   \<and> fst (arc env args cmode (Some m') (ellipse_mode m st)) = fst (arc env args cmode (Some m') st)"
proof -
  have setters:
    "rect_mode_var (rect_mode m st) = m" "ellipse_mode_var (rect_mode m st) = ellipse_mode_var st"
    "rendered (rect_mode m st) = rendered st" "ellipse_mode_var (ellipse_mode m st) = m"
    "rect_mode_var (ellipse_mode m st) = rect_mode_var st" "rendered (ellipse_mode m st) = rendered st"
    by (simp_all add: rect_mode_def ellipse_mode_def)
  have explicit:
    "fst (rect args (Some m') (rect_mode m st)) = fst (rect args (Some m') st)"
    "fst (square args (Some m') (rect_mode m st)) = fst (square args (Some m') st)"
    "fst (ellipse env args (Some m') (ellipse_mode m st)) = fst (ellipse env args (Some m') st)"
    "fst (circle env args (Some m') (ellipse_mode m st)) = fst (circle env args (Some m') st)"
    "fst (arc env args cmode (Some m') (ellipse_mode m st)) = fst (arc env args cmode (Some m') st)"
    by (rule fst_rect_explicit fst_square_explicit fst_ellipse_explicit fst_circle_explicit
        fst_arc_explicit)+
  have unknown: "(length args = 3 \<or> length args = 4 \<longrightarrow>
           rect args None (rect_mode m st) =
             (Inl (ValueError (''Unknown rect mode '' @ (case m of None \<Rightarrow> ''None'' | Some s \<Rightarrow> s))),
              rect_mode m st)
           \<and> ellipse env args None (ellipse_mode m st) =
             (Inl (ValueError (''Unknown arc mode '' @ (case m of None \<Rightarrow> ''None'' | Some s \<Rightarrow> s))),
              ellipse_mode m st))
        \<and> (length args = 2 \<or> length args = 3 \<longrightarrow>
           square args None (rect_mode m st) =
             (Inl (ValueError (''Unknown rect mode '' @ (case m of None \<Rightarrow> ''None'' | Some s \<Rightarrow> s))),
              rect_mode m st)
           \<and> circle env args None (ellipse_mode m st) =
             (Inl (ValueError (''Unknown arc mode '' @ (case m of None \<Rightarrow> ''None'' | Some s \<Rightarrow> s))),
              ellipse_mode m st))
        \<and> (length args = 5 \<or> length args = 6 \<longrightarrow>
           arc env args cmode None (ellipse_mode m st) =
             (Inl (ValueError (''Unknown arc mode '' @ (case m of None \<Rightarrow> ''None'' | Some s \<Rightarrow> s))),
              ellipse_mode m st))"
    if m: "m \<noteq> Some ''CORNER'' \<and> m \<noteq> Some ''CORNERS'' \<and> m \<noteq> Some ''CENTER'' \<and> m \<noteq> Some ''RADIUS''"
  proof (intro conjI impI)
    assume a: "length args = 3 \<or> length args = 4"
    show "rect args None (rect_mode m st) =
             (Inl (ValueError (''Unknown rect mode '' @ (case m of None \<Rightarrow> ''None'' | Some s \<Rightarrow> s))),
              rect_mode m st)"
      using a m by (intro rect_unknown_mode) (simp_all add: rect_mode_def)
    show "ellipse env args None (ellipse_mode m st) =
             (Inl (ValueError (''Unknown arc mode '' @ (case m of None \<Rightarrow> ''None'' | Some s \<Rightarrow> s))),
              ellipse_mode m st)"
      using a m by (intro ellipse_unknown_mode) (auto simp: ellipse_mode_def split: option.splits)
  next
    assume a: "length args = 2 \<or> length args = 3"
    show "square args None (rect_mode m st) =
             (Inl (ValueError (''Unknown rect mode '' @ (case m of None \<Rightarrow> ''None'' | Some s \<Rightarrow> s))),
              rect_mode m st)"
      using a m by (intro square_unknown_mode) (auto simp: rect_mode_def split: option.splits)
    show "circle env args None (ellipse_mode m st) =
             (Inl (ValueError (''Unknown arc mode '' @ (case m of None \<Rightarrow> ''None'' | Some s \<Rightarrow> s))),
              ellipse_mode m st)"
      using a m by (intro circle_unknown_mode) (auto simp: ellipse_mode_def split: option.splits)
  next
    assume a: "length args = 5 \<or> length args = 6"
    show "arc env args cmode None (ellipse_mode m st) =
             (Inl (ValueError (''Unknown arc mode '' @ (case m of None \<Rightarrow> ''None'' | Some s \<Rightarrow> s))),
              ellipse_mode m st)"
      using a m by (intro arc_unknown_mode) (simp_all add: ellipse_mode_def)
  qed
  show ?thesis using setters explicit unknown by blast
qed


text \<open>The mode \<open>DIAGONAL\<close> is stored; the next \<^verbatim>\<open>rect\<close> and \<^verbatim>\<open>circle\<close> raise.\<close>

theorem mode_setters_store_unvalidated_witness:
  "rect_mode_var (rect_mode (Some ''DIAGONAL'') initial_state) = Some ''DIAGONAL''
   \<and> ellipse_mode_var (ellipse_mode (Some ''DIAGONAL'') initial_state) = Some ''DIAGONAL''
   \<and> rect [Tup [Num 0, Num 0], Num 1, Num 1] None (rect_mode (Some ''DIAGONAL'') initial_state) =
       (Inl (ValueError ''Unknown rect mode DIAGONAL''), rect_mode (Some ''DIAGONAL'') initial_state)
   \<and> circle example_env [Tup [Num 0, Num 0], Num 5] None
         (ellipse_mode (Some ''DIAGONAL'') initial_state) =
       (Inl (ValueError ''Unknown arc mode DIAGONAL''), ellipse_mode (Some ''DIAGONAL'') initial_state)"
proof -
  have m: "Some ''DIAGONAL'' \<noteq> Some ''CORNER'' \<and> Some ''DIAGONAL'' \<noteq> Some ''CORNERS''
         \<and> Some ''DIAGONAL'' \<noteq> Some ''CENTER'' \<and> Some ''DIAGONAL'' \<noteq> Some ''RADIUS''"
    by simp
  have l1: "length [Tup [Num 0, Num 0], Num 1, Num 1] = 3 \<or> length [Tup [Num 0, Num 0], Num 1, Num 1] = 4"
    by simp
  have l2: "length [Tup [Num 0, Num 0], Num 5] = 2 \<or> length [Tup [Num 0, Num 0], Num 5] = 3"
    by simp
  note t1 = mode_setters_store_unvalidated [where m = "Some ''DIAGONAL''" and st = initial_state
      and args = "[Tup [Num 0, Num 0], Num 1, Num 1]" and env = example_env
      and cmode = None and m' = "''CENTER''"]
  note t2 = mode_setters_store_unvalidated [where m = "Some ''DIAGONAL''" and st = initial_state
      and args = "[Tup [Num 0, Num 0], Num 5]" and env = example_env
      and cmode = None and m' = "''CENTER''"]
  have a: "rect_mode_var (rect_mode (Some ''DIAGONAL'') initial_state) = Some ''DIAGONAL''"
    using t1 by blast
  have b: "ellipse_mode_var (ellipse_mode (Some ''DIAGONAL'') initial_state) = Some ''DIAGONAL''"
    using t1 by blast
  have c: "rect [Tup [Num 0, Num 0], Num 1, Num 1] None (rect_mode (Some ''DIAGONAL'') initial_state) =
       (Inl (ValueError (''Unknown rect mode '' @ (case Some ''DIAGONAL'' of None \<Rightarrow> ''None'' | Some s \<Rightarrow> s))),
        rect_mode (Some ''DIAGONAL'') initial_state)"
    using t1 m l1 by blast
  have d: "circle example_env [Tup [Num 0, Num 0], Num 5] None
         (ellipse_mode (Some ''DIAGONAL'') initial_state) =
       (Inl (ValueError (''Unknown arc mode '' @ (case Some ''DIAGONAL'' of None \<Rightarrow> ''None'' | Some s \<Rightarrow> s))),
        ellipse_mode (Some ''DIAGONAL'') initial_state)"
    using t2 m l2 by blast
  show ?thesis using a b c d by simp
qed

end
